theory Spec2Isabelle
  imports Complex_Main
begin

section \<open>Data model\<close>

text \<open>
  The order status is a string field in the source; the command handlers only compare it
  with, and assign to it, the literals listed here.
\<close>

datatype status =
    PENDING | WAITING_PAYMENT | ACTIVE | FIAT_SENT | DISPUTE
  | COMPLETED | COMPLETED_BY_ADMIN | CANCELED | CANCELED_BY_ADMIN

definition terminal :: "status \<Rightarrow> bool" where
  "terminal s = (s = COMPLETED \<or> s = COMPLETED_BY_ADMIN \<or> s = CANCELED \<or> s = CANCELED_BY_ADMIN)"

text \<open>
  A \<open>User\<close> document. \<open>uid\<close> is the field \<open>_id\<close>. Identifiers are strings: the source
  compares \<open>user._id == order.buyer_id\<close> with loose equality, which compares the
  identifier's string form.
\<close>

record user =
  uid :: string
  username :: string
  admin :: bool
  disputes :: int
  banned :: bool

text \<open>
  An \<open>Order\<close> document, with the fields the handlers read or write. \<open>order_id\<close> is the
  field \<open>_id\<close>. A field that may be \<open>undefined\<close>/\<open>null\<close> is an option. The numbers
  \<open>amount\<close> and \<open>fee\<close> are taken as rationals.
\<close>

record order =
  order_id :: string
  status :: status
  creator_id :: string
  buyer_id :: "string option"
  seller_id :: "string option"
  buyer_invoice :: "string option"
  amount :: rat
  fee :: rat
  hash :: "string option"
  secret :: "string option"
  taken_at :: "nat option"
  canceled_by :: "string option"
  buyer_dispute :: bool
  seller_dispute :: bool
  buyer_cooperativecancel :: bool
  seller_cooperativecancel :: bool
  tg_channel_message1 :: "string option"
  tg_channel_message2 :: "string option"
  tg_group_message2 :: "string option"
  tg_chat_id :: "int option"

text \<open>\<open>!!v\<close> on a string field: false for \<open>undefined\<close>, \<open>null\<close> and the empty string.\<close>

definition truthy :: "string option \<Rightarrow> bool" where
  "truthy v = (case v of None \<Rightarrow> False | Some s \<Rightarrow> s \<noteq> [])"

text \<open>The value \<open>createHoldInvoice\<close> resolves to: \<open>{ request, hash, secret }\<close>.\<close>

record invoice =
  inv_request :: string
  inv_hash :: string
  inv_secret :: string

section \<open>Effects, failures and the world\<close>

text \<open>
  The texts the handlers send. Their wording (Spanish, with the order id spliced in) is
  not modelled; each constructor stands for one template of the source and carries the
  order id the template splices in.
\<close>

datatype notice =
    OnlyPendingCanBeCanceled
      \<comment> \<open>cancel: "this option only cancels orders not taken or not yet paid"\<close>
  | YouCanceledOrder string
      \<comment> \<open>"Has cancelado la orden Id: ..."\<close>
  | AdminHasCanceledOrder string
      \<comment> \<open>to the seller: "El admin ha cancelado la orden Id: ..."\<close>
  | AdminCanceledOrder string
      \<comment> \<open>to the buyer: "El admin cancelado la orden Id: ..."\<close>
  | YouCompletedOrder string
  | AdminHasCompletedOrder string
  | AdminCompletedOrder string
  | OnlyActiveCanBeCoopCanceled
      \<comment> \<open>cooperativecancel: "this option only cancels active orders cooperatively"\<close>
  | AlreadyRequestedWait
      \<comment> \<open>cooperativecancel: "you already did this, wait for your counterparty"\<close>
  | CounterpartyAgreedCanceled string
  | YouStartedCancel string
  | CounterpartyWantsCancel string
  | CoopCancelCommand string
      \<comment> \<open>the text "/cooperativecancel <id>"\<close>
  | OrderCompletedText string
      \<comment> \<open>"Orden <id> COMPLETADA"\<close>

text \<open>
  Every awaited call of a handler that reaches outside of it: the escrow client
  (\<open>../ln\<close>), the persistence layer (\<open>save\<close>) and the notification transport
  (\<open>./messages\<close>, \<open>bot.telegram\<close>). The trace of a run is the list of the calls it
  made, in order, each with its arguments.
\<close>

text \<open>The chat of a Telegram call: \<open>process.env.CHANNEL\<close> or a numeric chat id.\<close>

datatype chat = Channel "string option" | Chat int

datatype effect =
    SettleHoldInvoice "string option"
      \<comment> \<open>\<open>settleHoldInvoice({ secret })\<close>\<close>
  | CancelHoldInvoice "string option"
      \<comment> \<open>\<open>cancelHoldInvoice({ hash })\<close>\<close>
  | CreateHoldInvoice int string
      \<comment> \<open>\<open>createHoldInvoice({ amount, description })\<close>\<close>
  | SubscribeInvoice string
      \<comment> \<open>\<open>subscribeInvoice(bot, hash)\<close>\<close>
  | SaveOrder order
      \<comment> \<open>\<open>order.save()\<close>\<close>
  | SaveUser user
      \<comment> \<open>\<open>user.save()\<close>\<close>
  | CustomMessage "user option" notice
      \<comment> \<open>\<open>messages.customMessage(bot, user, text)\<close>; the user may be \<open>null\<close>\<close>
  | DeleteMessage chat "string option"
      \<comment> \<open>\<open>bot.telegram.deleteMessage(chat, messageId)\<close>\<close>
  | EditMessageText chat "string option" notice
      \<comment> \<open>\<open>bot.telegram.editMessageText(chat, messageId, null, text)\<close>\<close>
  | BeginDisputeMessage user user order string
      \<comment> \<open>\<open>messages.beginDisputeMessage(bot, buyer, seller, order, initiator)\<close>\<close>
  | InvoicePaymentRequestMessage "user option" string
  | TakeSellWaitingSellerToPayMessage user order
  | InvalidDataMessage user
  | NotFoundUserMessage user
  | UserBannedMessage user

datatype exn =
    CallRejected
      \<comment> \<open>an awaited call rejected; the call is the last entry of the trace\<close>
  | TypeError
      \<comment> \<open>a property read on \<open>null\<close>/\<open>undefined\<close>, or destructuring a non-iterable\<close>
  | ReferenceError string
      \<comment> \<open>reading an identifier that has no binding\<close>

text \<open>
  The world a handler runs in: the stored orders and users, the trace of outside calls
  made so far, and what \<open>console.log\<close> has printed from the \<open>catch\<close> blocks.
\<close>

record world =
  orders :: "string \<rightharpoonup> order"
  users :: "user list"
  trace :: "effect list"
  console :: "exn list"

text \<open>
  The \<open>User\<close> collection is searched by \<open>_id\<close> and by \<open>username\<close>, so it is a list of
  documents: \<open>findOne\<close> answers with the first match, \<open>save\<close> replaces the document with
  the same \<open>_id\<close> (or adds it).
\<close>

definition findOne_id :: "user list \<Rightarrow> string option \<Rightarrow> user option" where
  "findOne_id us i = (case i of None \<Rightarrow> None | Some k \<Rightarrow> find (\<lambda>u. uid u = k) us)"

definition findOne_username :: "user list \<Rightarrow> string \<Rightarrow> user option" where
  "findOne_username us n = find (\<lambda>u. username u = n) us"

fun save_user :: "user \<Rightarrow> user list \<Rightarrow> user list" where
  "save_user u [] = [u]"
| "save_user u (v # vs) = (if uid v = uid u then u # vs else v # save_user u vs)"

text \<open>
  The environment: which outside calls reject (it may depend on everything that happened
  before), what the escrow node answers to a create call, the clock, and the process
  environment variables. \<open>MAX_DISPUTES\<close> is the numeric value of the environment string,
  \<open>None\<close> when it is unset or not a number.
\<close>

record env =
  fails :: "effect list \<Rightarrow> effect \<Rightarrow> bool"
  new_invoice :: "effect list \<Rightarrow> int \<Rightarrow> string \<Rightarrow> invoice"
  date_now :: "effect list \<Rightarrow> nat"
  MAX_DISPUTES :: "int option"
  CHANNEL :: "string option"

text \<open>
  One awaited outside call: it is recorded in the trace; if the environment rejects it the
  call throws, otherwise a \<open>save\<close> writes the document under its id.
\<close>

definition commit :: "effect \<Rightarrow> world \<Rightarrow> world" where
  "commit e w =
     (case e of
        SaveOrder ord \<Rightarrow> w\<lparr>orders := (orders w)(order_id ord \<mapsto> ord)\<rparr>
      | SaveUser u \<Rightarrow> w\<lparr>users := save_user u (users w)\<rparr>
      | _ \<Rightarrow> w)"

definition perform :: "env \<Rightarrow> effect \<Rightarrow> world \<Rightarrow> exn option \<times> world" where
  "perform ev e w =
     (let w1 = w\<lparr>trace := trace w @ [e]\<rparr>
      in if fails ev (trace w) e then (Some CallRejected, w1) else (None, commit e w1))"

text \<open>A straight-line sequence of awaited calls: the first one that throws ends it.\<close>

fun perform_all :: "env \<Rightarrow> effect list \<Rightarrow> world \<Rightarrow> exn option \<times> world" where
  "perform_all ev [] w = (None, w)"
| "perform_all ev (e # es) w =
     (case perform ev e w of
        (Some x, w1) \<Rightarrow> (Some x, w1)
      | (None, w1) \<Rightarrow> perform_all ev es w1)"

text \<open>\<open>catch (error) { console.log(error); }\<close>\<close>

definition console_log :: "exn \<Rightarrow> world \<Rightarrow> world" where
  "console_log x w = w\<lparr>console := console w @ [x]\<rparr>"

definition catch_log :: "exn option \<times> world \<Rightarrow> world" where
  "catch_log r = (case r of (Some x, w) \<Rightarrow> console_log x w | (None, w) \<Rightarrow> w)"

section \<open>The helpers of \<open>./validations\<close> and \<open>./ordersActions\<close>\<close>

text \<open>
  The incoming update, as far as the handlers and their validators look at it.
\<close>

record ctx =
  sender :: string
  message_words :: "string list"
  botInfo_username :: string

text \<open>
  The validators and lookups the handlers call are imported from modules whose source is
  not at hand; the handlers are therefore parametrised by them. Each is a query on the
  stored documents: it answers with a document or with nothing (a falsy result, after
  which the handler returns), and changes no stored document. \<open>validateParams\<close> answers
  with the array of parameters; \<open>None\<close> stands for a result that is not iterable, on which
  the destructuring \<open>const [orderId] = ...\<close> throws.
\<close>

record helpers =
  validateUser :: "user list \<Rightarrow> ctx \<Rightarrow> user option"
  validateAdmin :: "user list \<Rightarrow> ctx \<Rightarrow> user option"
  validateParams :: "ctx \<Rightarrow> user \<Rightarrow> nat \<Rightarrow> string \<Rightarrow> string list option"
  validateObjectId :: "user \<Rightarrow> string \<Rightarrow> bool"
  getOrder :: "(string \<rightharpoonup> order) \<Rightarrow> user \<Rightarrow> string \<Rightarrow> order option"
  validateReleaseOrder :: "(string \<rightharpoonup> order) \<Rightarrow> user \<Rightarrow> string \<Rightarrow> order option"
  validateDisputeOrder :: "(string \<rightharpoonup> order) \<Rightarrow> user \<Rightarrow> string \<Rightarrow> order option"
  validateTakeSell :: "ctx \<Rightarrow> user \<Rightarrow> (string option \<times> string option) option"
  validateTakeSellOrder :: "user \<Rightarrow> string option \<Rightarrow> order option \<Rightarrow> bool"

text \<open>
  The opening lines shared by the commands that take an order id:
  \<^verbatim>\<open>
  if (!user) return;
  const [orderId] = await validateParams(ctx, bot, user, 2, '<order_id>');
  if (!orderId) return;
  if (!(await validateObjectId(bot, user, orderId))) return;
  \<close>
  \<open>user\<close> is the result of \<open>validateUser\<close> or of \<open>validateAdmin\<close>.
\<close>

datatype 'a step = Return | Throw exn | Continue 'a

definition order_id_param :: "helpers \<Rightarrow> ctx \<Rightarrow> user option \<Rightarrow> (user \<times> string) step" where
  "order_id_param h c vu =
     (case vu of
        None \<Rightarrow> Return
      | Some u \<Rightarrow>
          (case validateParams h c u 2 ''<order_id>'' of
             None \<Rightarrow> Throw TypeError
           | Some [] \<Rightarrow> Return
           | Some (orderId # rest) \<Rightarrow>
               if orderId = [] then Return
               else if \<not> validateObjectId h u orderId then Return
               else Continue (u, orderId)))"

section \<open>The command handlers\<close>

subsection \<open>\<open>/cancel\<close>: the owner cancels\<close>

definition cancel_body :: "env \<Rightarrow> user \<Rightarrow> order \<Rightarrow> world \<Rightarrow> world" where
  "cancel_body ev u ord w =
     (if status ord \<noteq> PENDING \<and> status ord \<noteq> WAITING_PAYMENT then
        catch_log (perform_all ev [CustomMessage (Some u) OnlyPendingCanBeCanceled] w)
      else
        catch_log (perform_all ev
          ((if truthy (hash ord) then [CancelHoldInvoice (hash ord)] else []) @
           [SaveOrder (ord\<lparr>status := CANCELED, canceled_by := Some (uid u)\<rparr>),
            CustomMessage (Some u) (YouCanceledOrder (order_id ord)),
            DeleteMessage (Channel (CHANNEL ev)) (tg_channel_message1 ord),
            DeleteMessage (Channel (CHANNEL ev)) (tg_channel_message2 ord)]) w))"

definition cancel :: "env \<Rightarrow> helpers \<Rightarrow> ctx \<Rightarrow> world \<Rightarrow> world" where
  "cancel ev h c w =
     (case order_id_param h c (validateUser h (users w) c) of
        Return \<Rightarrow> w
      | Throw x \<Rightarrow> console_log x w
      | Continue (u, orderId) \<Rightarrow>
          (case getOrder h (orders w) u orderId of
             None \<Rightarrow> w
           | Some ord \<Rightarrow> cancel_body ev u ord w))"

subsection \<open>\<open>/cancelorder\<close>: the admin force-cancels\<close>

text \<open>
  The order is read with \<open>Order.findOne({ _id: orderId })\<close>; the handler has no check of
  the status.
\<close>

definition cancelorder_body :: "env \<Rightarrow> user \<Rightarrow> order \<Rightarrow> world \<Rightarrow> world" where
  "cancelorder_body ev u ord w =
     (let buyer = findOne_id (users w) (buyer_id ord);
          seller = findOne_id (users w) (seller_id ord)
      in catch_log (perform_all ev
           ((if truthy (hash ord) then [CancelHoldInvoice (hash ord)] else []) @
            [SaveOrder (ord\<lparr>status := CANCELED_BY_ADMIN, canceled_by := Some (uid u)\<rparr>),
             CustomMessage (Some u) (YouCanceledOrder (order_id ord)),
             CustomMessage seller (AdminHasCanceledOrder (order_id ord)),
             CustomMessage buyer (AdminCanceledOrder (order_id ord)),
             DeleteMessage (Channel (CHANNEL ev)) (tg_channel_message1 ord),
             DeleteMessage (Channel (CHANNEL ev)) (tg_channel_message2 ord)]) w))"

definition cancelorder :: "env \<Rightarrow> helpers \<Rightarrow> ctx \<Rightarrow> world \<Rightarrow> world" where
  "cancelorder ev h c w =
     (case order_id_param h c (validateAdmin h (users w) c) of
        Return \<Rightarrow> w
      | Throw x \<Rightarrow> console_log x w
      | Continue (u, orderId) \<Rightarrow>
          (case orders w orderId of
             None \<Rightarrow> w
           | Some ord \<Rightarrow> cancelorder_body ev u ord w))"

subsection \<open>\<open>/settleorder\<close>: the admin force-settles\<close>

definition settleorder_body :: "env \<Rightarrow> user \<Rightarrow> order \<Rightarrow> world \<Rightarrow> world" where
  "settleorder_body ev u ord w =
     (let buyer = findOne_id (users w) (buyer_id ord);
          seller = findOne_id (users w) (seller_id ord)
      in catch_log (perform_all ev
           ((if truthy (secret ord) then [SettleHoldInvoice (secret ord)] else []) @
            [SaveOrder (ord\<lparr>status := COMPLETED_BY_ADMIN\<rparr>),
             CustomMessage (Some u) (YouCompletedOrder (order_id ord)),
             CustomMessage seller (AdminHasCompletedOrder (order_id ord)),
             CustomMessage buyer (AdminCompletedOrder (order_id ord)),
             EditMessageText (Channel (CHANNEL ev)) (tg_channel_message2 ord)
               (OrderCompletedText (order_id ord))] @
            (case tg_chat_id ord of
               None \<Rightarrow> []
             | Some chat_id \<Rightarrow>
                 if chat_id < 0 then
                   [EditMessageText (Chat chat_id) (tg_group_message2 ord)
                      (OrderCompletedText (order_id ord))]
                 else [])) w))"

definition settleorder :: "env \<Rightarrow> helpers \<Rightarrow> ctx \<Rightarrow> world \<Rightarrow> world" where
  "settleorder ev h c w =
     (case order_id_param h c (validateAdmin h (users w) c) of
        Return \<Rightarrow> w
      | Throw x \<Rightarrow> console_log x w
      | Continue (u, orderId) \<Rightarrow>
          (case getOrder h (orders w) u orderId of
             None \<Rightarrow> w
           | Some ord \<Rightarrow> settleorder_body ev u ord w))"

subsection \<open>\<open>/release\<close>: the seller releases\<close>

text \<open>
  After the validation the handler makes one call, \<open>settleHoldInvoice({ secret:
  order.secret })\<close>, and ends: it assigns no field of the order and does not save it.
\<close>

definition release_body :: "env \<Rightarrow> order \<Rightarrow> world \<Rightarrow> world" where
  "release_body ev ord w = catch_log (perform_all ev [SettleHoldInvoice (secret ord)] w)"

definition release :: "env \<Rightarrow> helpers \<Rightarrow> ctx \<Rightarrow> world \<Rightarrow> world" where
  "release ev h c w =
     (case order_id_param h c (validateUser h (users w) c) of
        Return \<Rightarrow> w
      | Throw x \<Rightarrow> console_log x w
      | Continue (u, orderId) \<Rightarrow>
          (case validateReleaseOrder h (orders w) u orderId of
             None \<Rightarrow> w
           | Some ord \<Rightarrow> release_body ev ord w))"

subsection \<open>\<open>/dispute\<close>\<close>

text \<open>
  The two roles, and the fields the source reaches through the computed keys
  \<open>order[`${initiator}_dispute`]\<close> and \<open>order[`${initiator}_cooperativecancel`]\<close>.
\<close>

datatype role = Buyer | Seller


definition initiator_of :: "user \<Rightarrow> order \<Rightarrow> role" where
  "initiator_of u ord = (if Some (uid u) = buyer_id ord then Buyer else Seller)"

definition other_role :: "role \<Rightarrow> role" where
  "other_role r = (case r of Buyer \<Rightarrow> Seller | Seller \<Rightarrow> Buyer)"


definition cooperativecancel_flag :: "role \<Rightarrow> order \<Rightarrow> bool" where
  "cooperativecancel_flag r ord =
     (case r of Buyer \<Rightarrow> buyer_cooperativecancel ord | Seller \<Rightarrow> seller_cooperativecancel ord)"

definition set_cooperativecancel :: "role \<Rightarrow> order \<Rightarrow> order" where
  "set_cooperativecancel r ord =
     (case r of
        Buyer \<Rightarrow> ord\<lparr>buyer_cooperativecancel := True\<rparr>
      | Seller \<Rightarrow> ord\<lparr>seller_cooperativecancel := True\<rparr>)"

text \<open>
  \<open>n >= process.env.MAX_DISPUTES\<close>: with the variable unset or not numeric the comparison
  is with \<open>NaN\<close> and is false.
\<close>

definition reaches_max :: "env \<Rightarrow> int \<Rightarrow> bool" where
  "reaches_max ev n = (case MAX_DISPUTES ev of None \<Rightarrow> False | Some m \<Rightarrow> n \<ge> m)"

definition count_dispute :: "env \<Rightarrow> user \<Rightarrow> user" where
  "count_dispute ev p =
     (let n = disputes p + 1; p1 = p\<lparr>disputes := n\<rparr>
      in if reaches_max ev n then p1\<lparr>banned := True\<rparr> else p1)"



subsection \<open>\<open>/cooperativecancel\<close>\<close>

text \<open>
  The caller is the buyer when \<open>user._id == order.buyer_id\<close> and is taken to be the
  seller otherwise. In the branch of the second confirmation the escrow call, the two
  messages and the two deletions come first and \<open>order.save()\<close> last; in the other branch
  the three messages come first and \<open>order.save()\<close> last.
\<close>

definition cooperativecancel_body :: "env \<Rightarrow> user \<Rightarrow> order \<Rightarrow> world \<Rightarrow> world" where
  "cooperativecancel_body ev u ord w =
     (if status ord \<noteq> ACTIVE then
        catch_log (perform_all ev [CustomMessage (Some u) OnlyActiveCanBeCoopCanceled] w)
      else
        let initiator = initiator_of u ord;
            counterParty = other_role initiator;
            counterPartyUser =
              (case initiator of
                 Buyer \<Rightarrow> findOne_id (users w) (seller_id ord)
               | Seller \<Rightarrow> findOne_id (users w) (buyer_id ord))
        in if cooperativecancel_flag initiator ord then
             catch_log (perform_all ev [CustomMessage (Some u) AlreadyRequestedWait] w)
           else
             let ord1 = set_cooperativecancel initiator ord
             in if cooperativecancel_flag counterParty ord1 then
                  catch_log (perform_all ev
                    ((if truthy (hash ord1) then [CancelHoldInvoice (hash ord1)] else []) @
                     [CustomMessage (Some u) (YouCanceledOrder (order_id ord1)),
                      CustomMessage counterPartyUser (CounterpartyAgreedCanceled (order_id ord1)),
                      DeleteMessage (Channel (CHANNEL ev)) (tg_channel_message1 ord1),
                      DeleteMessage (Channel (CHANNEL ev)) (tg_channel_message2 ord1),
                      SaveOrder (ord1\<lparr>status := CANCELED\<rparr>)]) w)
                else
                  catch_log (perform_all ev
                    [CustomMessage (Some u) (YouStartedCancel (order_id ord1)),
                     CustomMessage counterPartyUser (CounterpartyWantsCancel (order_id ord1)),
                     CustomMessage counterPartyUser (CoopCancelCommand (order_id ord1)),
                     SaveOrder ord1] w))"

definition cooperativecancel :: "env \<Rightarrow> helpers \<Rightarrow> ctx \<Rightarrow> world \<Rightarrow> world" where
  "cooperativecancel ev h c w =
     (case order_id_param h c (validateUser h (users w) c) of
        Return \<Rightarrow> w
      | Throw x \<Rightarrow> console_log x w
      | Continue (u, orderId) \<Rightarrow>
          (case getOrder h (orders w) u orderId of
             None \<Rightarrow> w
           | Some ord \<Rightarrow> cooperativecancel_body ev u ord w))"

subsection \<open>\<open>/takesell\<close>\<close>

text \<open>
  The inner \<open>catch (e)\<close> logs and sends \<open>invalidDataMessage\<close>; if that call throws too, the
  outer \<open>catch\<close> logs it.
\<close>

definition takesell_catch :: "env \<Rightarrow> user \<Rightarrow> exn \<Rightarrow> world \<Rightarrow> world" where
  "takesell_catch ev u x w = catch_log (perform_all ev [InvalidDataMessage u] (console_log x w))"

text \<open>
  The fields \<open>status\<close>, \<open>buyer_id\<close> and \<open>buyer_invoice\<close> are assigned on the document in
  memory before the hold invoice is asked for; \<open>hash\<close>, \<open>secret\<close> and \<open>taken_at\<close> are
  assigned when \<open>createHoldInvoice\<close> has answered; only then is the document saved.
\<close>

definition takesell_try ::
  "env \<Rightarrow> helpers \<Rightarrow> ctx \<Rightarrow> user \<Rightarrow> string \<Rightarrow> string option \<Rightarrow> world \<Rightarrow> world" where
  "takesell_try ev h c u orderId lnInvoice w =
     (let found = orders w orderId
      in if \<not> validateTakeSellOrder h u lnInvoice found then w
         else
           (case found of
              None \<Rightarrow> takesell_catch ev u TypeError w
            | Some ord \<Rightarrow>
                (let ord1 = ord\<lparr>status := WAITING_PAYMENT, buyer_id := Some (uid u),
                                buyer_invoice := lnInvoice\<rparr>;
                     seller = findOne_id (users w) (Some (creator_id ord1));
                     description = ''Venta por @'' @ botInfo_username c;
                     amt = floor (amount ord1 + fee ord1)
                 in (case perform ev (CreateHoldInvoice amt description) w of
                       (Some x, w1) \<Rightarrow> takesell_catch ev u x w1
                     | (None, w1) \<Rightarrow>
                         (let created = new_invoice ev (trace w) amt description;
                              ord2 = ord1\<lparr>hash := Some (inv_hash created),
                                           secret := Some (inv_secret created),
                                           taken_at := Some (date_now ev (trace w1))\<rparr>
                          in (case perform_all ev
                                     [SaveOrder ord2,
                                      SubscribeInvoice (inv_hash created),
                                      InvoicePaymentRequestMessage seller (inv_request created),
                                      TakeSellWaitingSellerToPayMessage u ord2] w1 of
                                (Some x, w2) \<Rightarrow> takesell_catch ev u x w2
                              | (None, w2) \<Rightarrow> w2))))))"

definition takesell :: "env \<Rightarrow> helpers \<Rightarrow> ctx \<Rightarrow> world \<Rightarrow> world" where
  "takesell ev h c w =
     (case validateUser h (users w) c of
        None \<Rightarrow> w
      | Some u \<Rightarrow>
          (case validateTakeSell h c u of
             None \<Rightarrow> w
           | Some (orderId, lnInvoice) \<Rightarrow>
               (case orderId of
                  None \<Rightarrow> w
                | Some i \<Rightarrow> if i = [] then w else takesell_try ev h c u i lnInvoice w)))"

subsection \<open>\<open>/ban\<close>\<close>

text \<open>
  The handler reads the identifier \<open>params\<close> in \<open>validateObjectId(bot, user, params[0])\<close>.
  The bindings in scope at that line are listed with the kind of value they hold: the
  locals of the handler, the parameters and locals of \<open>initialize\<close>, the bindings of the
  module, and the runtime globals the module refers to; none of them is named \<open>params\<close>. The argument \<open>params[0]\<close> is evaluated before the
  call is made.
\<close>

datatype jsval = JSUser user | JSString string | JSArray "string list" | JSObject

definition ban_scope :: "user \<Rightarrow> string \<Rightarrow> user \<Rightarrow> (string \<times> jsval) list" where
  "ban_scope adminUser uname u =
     [(''adminUser'', JSUser adminUser), (''username'', JSString uname), (''user'', JSUser u),
      (''ctx'', JSObject), (''bot'', JSObject), (''botToken'', JSObject), (''options'', JSObject),
      (''pendingPaymentJob'', JSObject), (''cancelOrderJob'', JSObject)] @
     map (\<lambda>n. (n, JSObject))
       [''Telegraf'', ''schedule'', ''Order'', ''User'', ''ordersActions'', ''takebuy'',
        ''settleHoldInvoice'', ''createHoldInvoice'', ''cancelHoldInvoice'', ''subscribeInvoice'',
        ''validateSellOrder'', ''validateUser'', ''validateBuyOrder'', ''validateTakeSell'',
        ''validateReleaseOrder'', ''validateTakeSellOrder'', ''validateDisputeOrder'',
        ''validateAdmin'', ''validateFiatSentOrder'', ''validateSeller'', ''validateParams'',
        ''validateObjectId'', ''validateInvoice'', ''messages'', ''attemptPendingPayments'',
        ''cancelOrders'', ''initialize'', ''start'',
        ''require'', ''module'', ''exports'', ''process'', ''console'', ''globalThis'']"

definition read_identifier :: "(string \<times> jsval) list \<Rightarrow> string \<Rightarrow> exn + jsval" where
  "read_identifier scope x =
     (case map_of scope x of None \<Rightarrow> Inl (ReferenceError x) | Some v \<Rightarrow> Inr v)"

text \<open>\<open>v[0]\<close> as a string argument; anything but the head of an array counts as empty.\<close>

definition index0 :: "jsval \<Rightarrow> string" where
  "index0 v = (case v of JSArray (a # rest) \<Rightarrow> a | _ \<Rightarrow> [])"

definition ban :: "env \<Rightarrow> helpers \<Rightarrow> ctx \<Rightarrow> world \<Rightarrow> world" where
  "ban ev h c w =
     (case validateAdmin h (users w) c of
        None \<Rightarrow> w
      | Some adminUser \<Rightarrow>
          (case validateParams h c adminUser 2 ''<username>'' of
             None \<Rightarrow> console_log TypeError w
           | Some [] \<Rightarrow> w
           | Some (uname # rest) \<Rightarrow>
               if uname = [] then w
               else
                 (case findOne_username (users w) uname of
                    None \<Rightarrow> catch_log (perform_all ev [NotFoundUserMessage adminUser] w)
                  | Some u \<Rightarrow>
                      (case read_identifier (ban_scope adminUser uname u) ''params'' of
                         Inl x \<Rightarrow> console_log x w
                       | Inr v \<Rightarrow>
                           if \<not> validateObjectId h u (index0 v) then w
                           else
                             catch_log (perform_all ev
                               [SaveUser (u\<lparr>banned := True\<rparr>),
                                UserBannedMessage adminUser] w)))))"

section \<open>The community earnings message\<close>

record community =
  community_id :: string
  earnings :: int
  orders_to_redeem :: int

record pending_payment =
  pp_community_id :: string
  attempts :: int
  paid :: bool

text \<open>A translated text: the key given to \<open>ctx.i18n.t\<close> and its numeric parameters.\<close>

datatype i18n_text = T string "(string \<times> int) list"

record button =
  button_text :: i18n_text
  callback_data :: string

text \<open>
  \<open>ctx.reply(text, extra)\<close>: \<open>extra\<close> is absent, \<open>null\<close>, or a keyboard of one button.
\<close>

datatype reply = Reply i18n_text "button option"

record cworld =
  pending_payments :: "pending_payment list"
  communities :: "community list"
  replies :: "reply list"
  logged :: "exn list"

text \<open>
  \<open>PAYMENT_ATTEMPTS\<close> is the numeric value of the environment string the query casts for
  the numeric field \<open>attempts\<close>; \<open>None\<close> when it is unset, and no document matches then.
\<close>

record cenv =
  reply_fails :: "reply list \<Rightarrow> reply \<Rightarrow> bool"
  PAYMENT_ATTEMPTS :: "int option"

definition below_attempts :: "cenv \<Rightarrow> int \<Rightarrow> bool" where
  "below_attempts ev n = (case PAYMENT_ATTEMPTS ev of None \<Rightarrow> False | Some m \<Rightarrow> n < m)"

definition scheduled :: "cenv \<Rightarrow> string \<Rightarrow> pending_payment \<Rightarrow> bool" where
  "scheduled ev communityId p =
     (pp_community_id p = communityId \<and> below_attempts ev (attempts p) \<and> \<not> paid p)"

definition ctx_reply :: "cenv \<Rightarrow> reply \<Rightarrow> cworld \<Rightarrow> cworld" where
  "ctx_reply ev r w =
     (let w1 = w\<lparr>replies := replies w @ [r]\<rparr>
      in if reply_fails ev (replies w) r then w1\<lparr>logged := logged w1 @ [CallRejected]\<rparr> else w1)"

definition earningsMessage :: "cenv \<Rightarrow> string \<Rightarrow> cworld \<Rightarrow> cworld" where
  "earningsMessage ev communityId w =
     (case find (scheduled ev communityId) (pending_payments w) of
        Some isScheduled \<Rightarrow> ctx_reply ev (Reply (T ''invoice_already_being_paid'' []) None) w
      | None \<Rightarrow>
          (case find (\<lambda>m. community_id m = communityId) (communities w) of
             None \<Rightarrow> w\<lparr>logged := logged w @ [TypeError]\<rparr>
           | Some m \<Rightarrow>
               ctx_reply ev
                 (Reply (T ''current_earnings''
                           [(''ordersToRedeem'', orders_to_redeem m), (''earnings'', earnings m)])
                    (if earnings m > 0 then
                       Some \<lparr>button_text = T ''withdraw_earnings'' [],
                             callback_data = ''withdrawEarnings_'' @ community_id m\<rparr>
                     else None)) w))"

section \<open>Reading a run\<close>

text \<open>The outside calls a run added to the trace.\<close>

definition new_calls :: "world \<Rightarrow> world \<Rightarrow> effect list" where
  "new_calls w w1 = drop (length (trace w)) (trace w1)"

text \<open>The hashes given to \<open>cancelHoldInvoice\<close> and the secrets given to \<open>settleHoldInvoice\<close>.\<close>

fun canceled_hashes :: "effect list \<Rightarrow> string option list" where
  "canceled_hashes [] = []"
| "canceled_hashes (CancelHoldInvoice x # es) = x # canceled_hashes es"
| "canceled_hashes (e # es) = canceled_hashes es"

fun settled_secrets :: "effect list \<Rightarrow> string option list" where
  "settled_secrets [] = []"
| "settled_secrets (SettleHoldInvoice x # es) = x # settled_secrets es"
| "settled_secrets (e # es) = settled_secrets es"

fun is_save :: "effect \<Rightarrow> bool" where
  "is_save (SaveOrder ord) = True"
| "is_save (SaveUser u) = True"
| "is_save e = False"

text \<open>An environment in which no outside call rejects.\<close>

definition no_failures :: "env \<Rightarrow> bool" where
  "no_failures ev = (\<forall>tr e. \<not> fails ev tr e)"

section \<open>Sample helpers and data\<close>

text \<open>
  Modelled from the spec: \<open>validateReleaseOrder\<close> of \<open>./validations\<close>, whose source is not
  at hand. The transition table gives the release as the trigger of the seller on an order
  in \<open>FIAT_SENT\<close>/\<open>ACTIVE\<close> with the precondition "secret present", and the escrow
  coordinator's \<open>release(order)\<close> "requires \<open>secret\<close>": the validator answers with the stored
  order when the caller is its seller, the status is one of the two and the secret is
  present, and with nothing otherwise.
\<close>

definition validateReleaseOrder_spec :: "(string \<rightharpoonup> order) \<Rightarrow> user \<Rightarrow> string \<Rightarrow> order option" where
  "validateReleaseOrder_spec os u i =
     (case os i of
        None \<Rightarrow> None
      | Some ord \<Rightarrow>
          if seller_id ord = Some (uid u) \<and> (status ord = ACTIVE \<or> status ord = FIAT_SENT)
             \<and> truthy (secret ord)
          then Some ord else None)"

text \<open>
  Modelled from the spec: the other validators of \<open>./validations\<close> and the lookup \<open>getOrder\<close>
  of \<open>./ordersActions\<close>, whose source is not at hand. The spec leaves command parsing and
  permission checks outside of the core; for the commands it gives the transition table:
  dispute by the buyer or the seller on \<open>ACTIVE\<close>/\<open>FIAT_SENT\<close>, take on an unclaimed
  \<open>PENDING\<close> order. The sender is found by username, an admin is a user with the \<open>admin\<close>
  flag, the parameters are the words after the command, and \<open>getOrder\<close> reads the order
  stored under the id. These helpers serve to run the handlers on concrete inputs.
\<close>

definition spec_helpers :: helpers where
  "spec_helpers =
     \<lparr>validateUser = (\<lambda>us c. findOne_username us (sender c)),
      validateAdmin = (\<lambda>us c.
         case findOne_username us (sender c) of
           None \<Rightarrow> None
         | Some u \<Rightarrow> if admin u then Some u else None),
      validateParams = (\<lambda>c u n usage.
         if length (message_words c) = n then Some (tl (message_words c)) else Some []),
      validateObjectId = (\<lambda>u i. i \<noteq> []),
      getOrder = (\<lambda>os u i. os i),
      validateReleaseOrder = validateReleaseOrder_spec,
      validateDisputeOrder = (\<lambda>os u i.
         case os i of
           None \<Rightarrow> None
         | Some ord \<Rightarrow>
             if (seller_id ord = Some (uid u) \<or> buyer_id ord = Some (uid u))
                \<and> (status ord = ACTIVE \<or> status ord = FIAT_SENT)
             then Some ord else None),
      validateTakeSell = (\<lambda>c u.
         case message_words c of
           [cmd, i, lnInvoice] \<Rightarrow> Some (Some i, Some lnInvoice)
         | _ \<Rightarrow> None),
      validateTakeSellOrder = (\<lambda>u lnInvoice found.
         case found of
           None \<Rightarrow> False
         | Some ord \<Rightarrow> status ord = PENDING \<and> buyer_id ord = None)\<rparr>"

definition root :: user where
  "root = \<lparr>uid = ''u0'', username = ''root'', admin = True, disputes = 0, banned = False\<rparr>"

definition alice :: user where
  "alice = \<lparr>uid = ''u1'', username = ''alice'', admin = False, disputes = 0, banned = False\<rparr>"

definition bob :: user where
  "bob = \<lparr>uid = ''u2'', username = ''bob'', admin = False, disputes = 2, banned = False\<rparr>"

text \<open>A sell order of alice, not taken, with no hold invoice.\<close>

definition order1 :: order where
  "order1 =
     \<lparr>order_id = ''o1'', status = PENDING, creator_id = ''u1'', buyer_id = None,
      seller_id = Some ''u1'', buyer_invoice = None, amount = 1000, fee = 1 / 2,
      hash = None, secret = None, taken_at = None, canceled_by = None,
      buyer_dispute = False, seller_dispute = False,
      buyer_cooperativecancel = False, seller_cooperativecancel = False,
      tg_channel_message1 = Some ''m1'', tg_channel_message2 = Some ''m2'',
      tg_group_message2 = None, tg_chat_id = None\<rparr>"

text \<open>The same order taken by bob, with a hold invoice, in a given status.\<close>

definition taken_order :: "status \<Rightarrow> order" where
  "taken_order st =
     order1\<lparr>status := st, buyer_id := Some ''u2'', hash := Some ''h1'', secret := Some ''s1''\<rparr>"

definition world_of :: "order \<Rightarrow> world" where
  "world_of ord =
     \<lparr>orders = [order_id ord \<mapsto> ord], users = [root, alice, bob], trace = [], console = []\<rparr>"

definition message :: "string \<Rightarrow> string list \<Rightarrow> ctx" where
  "message who ws = \<lparr>sender = who, message_words = ws, botInfo_username = ''p2pbot''\<rparr>"

text \<open>An environment that rejects exactly the calls \<open>bad\<close> picks.\<close>

definition env_rejecting :: "(effect \<Rightarrow> bool) \<Rightarrow> env" where
  "env_rejecting bad =
     \<lparr>fails = (\<lambda>tr e. bad e),
      new_invoice = (\<lambda>tr a d. \<lparr>inv_request = ''lnbc1'', inv_hash = ''h9'', inv_secret = ''s9''\<rparr>),
      date_now = (\<lambda>tr. 1700000000),
      MAX_DISPUTES = Some 3,
      CHANNEL = Some ''@channel''\<rparr>"

definition quiet_env :: env where
  "quiet_env = env_rejecting (\<lambda>e. False)"

text \<open>The taken order, active, for which alice, the seller, has asked to cancel.\<close>

definition order_alice_asked :: order where
  "order_alice_asked = (taken_order ACTIVE)\<lparr>seller_cooperativecancel := True\<rparr>"

text \<open>An environment that rejects the deletion of the second channel posting.\<close>

definition env_posting2_fails :: env where
  "env_posting2_fails =
     env_rejecting (\<lambda>e. e = DeleteMessage (Channel (Some ''@channel'')) (Some ''m2''))"

text \<open>An environment in which the escrow node rejects every create call.\<close>

definition env_create_fails :: env where
  "env_create_fails =
     env_rejecting (\<lambda>e. case e of CreateHoldInvoice a d \<Rightarrow> True | _ \<Rightarrow> False)"

section \<open>Runs of awaited calls\<close>

lemma perform_all_append:
  "perform_all ev (es @ fs) w =
     (case perform_all ev es w of
        (Some x, w1) \<Rightarrow> (Some x, w1)
      | (None, w1) \<Rightarrow> perform_all ev fs w1)"
  by (induction es arbitrary: w) (auto split: prod.splits option.splits)

lemma perform_all_quiet:
  "no_failures ev \<Longrightarrow>
   perform_all ev es w = (None, foldl (\<lambda>v e. commit e (v\<lparr>trace := trace v @ [e]\<rparr>)) w es)"
  by (induction es arbitrary: w) (auto simp: perform_def no_failures_def Let_def)

lemma commit_trace [simp]: "trace (commit e w) = trace w"
  by (cases e) (simp_all add: commit_def)

lemma commit_console [simp]: "console (commit e w) = console w"
  by (cases e) (simp_all add: commit_def)

lemma commit_not_save [simp]:
  "\<not> is_save e \<Longrightarrow> commit e w = w"
  by (cases e) (simp_all add: commit_def)

lemma perform_all_trace:
  "\<exists>n. trace (snd (perform_all ev es w)) = trace w @ take n es"
proof (induction es arbitrary: w)
  case Nil
  then show ?case by simp
next
  case (Cons e es)
  show ?case
  proof (cases "fails ev (trace w) e")
    case True
    then have "trace (snd (perform_all ev (e # es) w)) = trace w @ take 1 (e # es)"
      by (simp add: perform_def)
    then show ?thesis by blast
  next
    case False
    let ?w1 = "commit e (w\<lparr>trace := trace w @ [e]\<rparr>)"
    from Cons.IH [of ?w1] obtain n where
      "trace (snd (perform_all ev es ?w1)) = trace ?w1 @ take n es" by blast
    with False have "trace (snd (perform_all ev (e # es) w)) = trace w @ take (Suc n) (e # es)"
      by (simp add: perform_def)
    then show ?thesis by blast
  qed
qed

lemma perform_all_ok_trace:
  "fst (perform_all ev es w) = None \<Longrightarrow> trace (snd (perform_all ev es w)) = trace w @ es"
  by (induction es arbitrary: w) (auto simp: perform_def Let_def split: if_splits prod.splits option.splits)

lemma catch_log_fields [simp]:
  "orders (catch_log r) = orders (snd r)" "users (catch_log r) = users (snd r)"
  "trace (catch_log r) = trace (snd r)"
  by (cases r; cases "fst r"; simp add: catch_log_def console_log_def)+


section \<open>Owner cancel\<close>

lemma cancel_reaches_body:
  "order_id_param h c (validateUser h (users w) c) = Continue (u, i) \<Longrightarrow>
   getOrder h (orders w) u i = Some ord \<Longrightarrow>
   cancel ev h c w = cancel_body ev u ord w"
  by (simp add: cancel_def)

lemma new_calls_append [simp]: "trace w1 = trace w @ es \<Longrightarrow> new_calls w w1 = es"
  by (simp add: new_calls_def)

lemma canceled_hashes_append [simp]:
  "canceled_hashes (es @ fs) = canceled_hashes es @ canceled_hashes fs"
  by (induction es rule: canceled_hashes.induct) simp_all

lemma settled_secrets_append [simp]:
  "settled_secrets (es @ fs) = settled_secrets es @ settled_secrets fs"
  by (induction es rule: settled_secrets.induct) simp_all

text \<open>
  C5. The owner cancel goes through only on an order in status \<open>PENDING\<close> or
  \<open>WAITING_PAYMENT\<close>. On any other status the handler sends its guidance text and the
  stored orders are as before. On one of the two statuses \<open>cancelHoldInvoice\<close> is called
  (once, with the order's hash) exactly when the hash is present, whatever the environment
  does; and when no outside call rejects, the order is stored with status \<open>CANCELED\<close>
  and the two channel postings are deleted.
\<close>

theorem cancel_owner:
  assumes "order_id_param h c (validateUser h (users w) c) = Continue (u, i)"
      and "getOrder h (orders w) u i = Some ord"
  shows "(status ord \<noteq> PENDING \<and> status ord \<noteq> WAITING_PAYMENT \<longrightarrow>
            orders (cancel ev h c w) = orders w
          \<and> new_calls w (cancel ev h c w) = [CustomMessage (Some u) OnlyPendingCanBeCanceled])
       \<and> (status ord = PENDING \<or> status ord = WAITING_PAYMENT \<longrightarrow>
            canceled_hashes (new_calls w (cancel ev h c w))
              = (if truthy (hash ord) then [hash ord] else [])
          \<and> (no_failures ev \<longrightarrow>
                orders (cancel ev h c w)
                  = (orders w)(order_id ord \<mapsto> ord\<lparr>status := CANCELED, canceled_by := Some (uid u)\<rparr>)
              \<and> new_calls w (cancel ev h c w)
                  = (if truthy (hash ord) then [CancelHoldInvoice (hash ord)] else []) @
                    [SaveOrder (ord\<lparr>status := CANCELED, canceled_by := Some (uid u)\<rparr>),
                     CustomMessage (Some u) (YouCanceledOrder (order_id ord)),
                     DeleteMessage (Channel (CHANNEL ev)) (tg_channel_message1 ord),
                     DeleteMessage (Channel (CHANNEL ev)) (tg_channel_message2 ord)]))"
proof -
  have body: "cancel ev h c w = cancel_body ev u ord w"
    using assms by (rule cancel_reaches_body)
  show ?thesis
  proof (cases "truthy (hash ord)")
    case True
    then show ?thesis
      unfolding body cancel_body_def
      by (simp add: perform_def new_calls_def Let_def commit_def no_failures_def)
  next
    case False
    then show ?thesis
      unfolding body cancel_body_def
      by (simp add: perform_def new_calls_def Let_def commit_def no_failures_def)
  qed
qed


text \<open>The definitions that evaluate the sample helpers and data.\<close>

lemmas sample_defs =
  spec_helpers_def validateReleaseOrder_spec_def order_id_param_def message_def world_of_def findOne_username_def
  findOne_id_def root_def alice_def bob_def order1_def taken_order_def quiet_env_def
  env_rejecting_def no_failures_def

text \<open>
  Alice cancels her untaken order, which has no hash: no escrow call, status \<open>CANCELED\<close>.
  On the same order taken and \<open>ACTIVE\<close> the stored orders stay as they are.
\<close>

theorem cancel_owner_witness:
  "order_id_param spec_helpers (message ''alice'' [''/cancel'', ''o1''])
     (validateUser spec_helpers (users (world_of order1)) (message ''alice'' [''/cancel'', ''o1'']))
     = Continue (alice, ''o1'')
   \<and> getOrder spec_helpers (orders (world_of order1)) alice ''o1'' = Some order1
   \<and> status order1 = PENDING \<and> \<not> truthy (hash order1) \<and> no_failures quiet_env
   \<and> canceled_hashes (new_calls (world_of order1)
         (cancel quiet_env spec_helpers (message ''alice'' [''/cancel'', ''o1'']) (world_of order1))) = []
   \<and> map_option status
         (orders (cancel quiet_env spec_helpers (message ''alice'' [''/cancel'', ''o1''])
            (world_of order1)) ''o1'') = Some CANCELED
   \<and> status (taken_order ACTIVE) \<noteq> PENDING \<and> status (taken_order ACTIVE) \<noteq> WAITING_PAYMENT
   \<and> orders (cancel quiet_env spec_helpers (message ''alice'' [''/cancel'', ''o1''])
         (world_of (taken_order ACTIVE))) = orders (world_of (taken_order ACTIVE))"
proof -
  let ?c = "message ''alice'' [''/cancel'', ''o1'']"
  have p1: "order_id_param spec_helpers ?c (validateUser spec_helpers (users (world_of order1)) ?c)
              = Continue (alice, ''o1'')"
    by (simp add: sample_defs)
  have g1: "getOrder spec_helpers (orders (world_of order1)) alice ''o1'' = Some order1"
    by (simp add: sample_defs)
  have p2: "order_id_param spec_helpers ?c
              (validateUser spec_helpers (users (world_of (taken_order ACTIVE))) ?c)
              = Continue (alice, ''o1'')"
    by (simp add: sample_defs)
  have g2: "getOrder spec_helpers (orders (world_of (taken_order ACTIVE))) alice ''o1''
              = Some (taken_order ACTIVE)"
    by (simp add: sample_defs)
  have s1: "status order1 = PENDING" "\<not> truthy (hash order1)" "no_failures quiet_env"
    by (simp_all add: sample_defs truthy_def)
  have s2: "status (taken_order ACTIVE) \<noteq> PENDING" "status (taken_order ACTIVE) \<noteq> WAITING_PAYMENT"
    by (simp_all add: sample_defs)
  have id1: "order_id order1 = ''o1''" by (simp add: order1_def)
  show ?thesis
    using cancel_owner [OF p1 g1, of quiet_env] cancel_owner [OF p2 g2, of quiet_env] p1 g1 s1 s2
    by (simp add: id1)
qed

section \<open>Seller release\<close>

lemma release_reaches_body:
  "order_id_param h c (validateUser h (users w) c) = Continue (u, i) \<Longrightarrow>
   validateReleaseOrder h (orders w) u i = Some ord \<Longrightarrow>
   release ev h c w = release_body ev ord w"
  by (simp add: release_def)

lemma release_body_run:
  "settled_secrets (new_calls w (release_body ev ord w)) = [secret ord]
   \<and> canceled_hashes (new_calls w (release_body ev ord w)) = []
   \<and> orders (release_body ev ord w) = orders w
   \<and> users (release_body ev ord w) = users w"
  by (simp add: release_body_def perform_def new_calls_def Let_def commit_def)

text \<open>
  C2, as the claim states it, fails: the seller alice releases her order, which is in
  status \<open>FIAT_SENT\<close> and has a secret; after the handler has run, the stored status is
  not \<open>COMPLETED\<close>.
\<close>

theorem release_status_counterexample:
  "status (taken_order FIAT_SENT) = FIAT_SENT
   \<and> truthy (secret (taken_order FIAT_SENT))
   \<and> seller_id (taken_order FIAT_SENT) = Some (uid alice)
   \<and> map_option status
         (orders (release quiet_env spec_helpers (message ''alice'' [''/release'', ''o1''])
            (world_of (taken_order FIAT_SENT))) ''o1'') \<noteq> Some COMPLETED"
  by (simp add: sample_defs truthy_def release_def release_body_def perform_def Let_def
        commit_def catch_log_def)

text \<open>
  C2, amended. When the release handler has validated the caller and
  \<open>validateReleaseOrder\<close> has answered with an order, \<open>settleHoldInvoice\<close> is called exactly
  once, with that order's secret, and no other escrow call is made; the handler stores
  nothing: the orders and the users are as before, so the stored status is still the one
  the order had.
\<close>

theorem release_settles_once:
  assumes "order_id_param h c (validateUser h (users w) c) = Continue (u, i)"
      and "validateReleaseOrder h (orders w) u i = Some ord"
  shows "settled_secrets (new_calls w (release ev h c w)) = [secret ord]
       \<and> canceled_hashes (new_calls w (release ev h c w)) = []
       \<and> orders (release ev h c w) = orders w
       \<and> users (release ev h c w) = users w"
  unfolding release_reaches_body [OF assms] by (rule release_body_run)

theorem release_settles_once_witness:
  "order_id_param spec_helpers (message ''alice'' [''/release'', ''o1''])
     (validateUser spec_helpers (users (world_of (taken_order FIAT_SENT)))
        (message ''alice'' [''/release'', ''o1'']))
     = Continue (alice, ''o1'')
   \<and> validateReleaseOrder spec_helpers (orders (world_of (taken_order FIAT_SENT))) alice ''o1''
       = Some (taken_order FIAT_SENT)
   \<and> settled_secrets (new_calls (world_of (taken_order FIAT_SENT))
         (release quiet_env spec_helpers (message ''alice'' [''/release'', ''o1''])
            (world_of (taken_order FIAT_SENT)))) = [Some ''s1'']
   \<and> map_option status
         (orders (release quiet_env spec_helpers (message ''alice'' [''/release'', ''o1''])
            (world_of (taken_order FIAT_SENT))) ''o1'') = Some FIAT_SENT"
proof -
  let ?c = "message ''alice'' [''/release'', ''o1'']"
  let ?w = "world_of (taken_order FIAT_SENT)"
  have p: "order_id_param spec_helpers ?c (validateUser spec_helpers (users ?w) ?c)
             = Continue (alice, ''o1'')"
    by (simp add: sample_defs)
  have v: "validateReleaseOrder spec_helpers (orders ?w) alice ''o1'' = Some (taken_order FIAT_SENT)"
    by (simp add: sample_defs truthy_def)
  have f: "secret (taken_order FIAT_SENT) = Some ''s1''" "orders ?w ''o1'' = Some (taken_order FIAT_SENT)"
    "status (taken_order FIAT_SENT) = FIAT_SENT"
    by (simp_all add: sample_defs)
  show ?thesis
    using release_settles_once [OF p v, of quiet_env] p v f by simp
qed

section \<open>Escrow calls of the cancel and settle paths\<close>

lemma cancelorder_reaches_body:
  "order_id_param h c (validateAdmin h (users w) c) = Continue (u, i) \<Longrightarrow>
   orders w i = Some ord \<Longrightarrow>
   cancelorder ev h c w = cancelorder_body ev u ord w"
  by (simp add: cancelorder_def)

lemma settleorder_reaches_body:
  "order_id_param h c (validateAdmin h (users w) c) = Continue (u, i) \<Longrightarrow>
   getOrder h (orders w) u i = Some ord \<Longrightarrow>
   settleorder ev h c w = settleorder_body ev u ord w"
  by (simp add: settleorder_def)

lemma cooperativecancel_reaches_body:
  "order_id_param h c (validateUser h (users w) c) = Continue (u, i) \<Longrightarrow>
   getOrder h (orders w) u i = Some ord \<Longrightarrow>
   cooperativecancel ev h c w = cooperativecancel_body ev u ord w"
  by (simp add: cooperativecancel_def)

lemma cancel_body_escrow:
  "canceled_hashes (new_calls w (cancel_body ev u ord w))
     = (if (status ord = PENDING \<or> status ord = WAITING_PAYMENT) \<and> truthy (hash ord)
        then [hash ord] else [])
   \<and> settled_secrets (new_calls w (cancel_body ev u ord w)) = []"
  by (cases "truthy (hash ord)")
     (simp_all add: cancel_body_def perform_def new_calls_def Let_def commit_def)

lemma cancelorder_body_escrow:
  "canceled_hashes (new_calls w (cancelorder_body ev u ord w))
     = (if truthy (hash ord) then [hash ord] else [])
   \<and> settled_secrets (new_calls w (cancelorder_body ev u ord w)) = []"
  by (cases "truthy (hash ord)")
     (simp_all add: cancelorder_body_def perform_def new_calls_def Let_def commit_def)

lemma settleorder_body_escrow:
  "settled_secrets (new_calls w (settleorder_body ev u ord w))
     = (if truthy (secret ord) then [secret ord] else [])
   \<and> canceled_hashes (new_calls w (settleorder_body ev u ord w)) = []"
  by (cases "truthy (secret ord)"; cases "tg_chat_id ord")
     (simp_all add: settleorder_body_def perform_def new_calls_def Let_def commit_def)

lemma cooperativecancel_body_escrow:
  "canceled_hashes (new_calls w (cooperativecancel_body ev u ord w))
     = (if status ord = ACTIVE \<and> \<not> cooperativecancel_flag (initiator_of u ord) ord
           \<and> cooperativecancel_flag (other_role (initiator_of u ord)) ord \<and> truthy (hash ord)
        then [hash ord] else [])
   \<and> settled_secrets (new_calls w (cooperativecancel_body ev u ord w)) = []"
  by (cases "truthy (hash ord)"; cases "initiator_of u ord")
     (simp_all add: cooperativecancel_body_def perform_def new_calls_def Let_def commit_def
        cooperativecancel_flag_def set_cooperativecancel_def other_role_def)





lemma cooperativecancel_body_second:
  "no_failures ev \<Longrightarrow> status ord = ACTIVE \<Longrightarrow>
   \<not> cooperativecancel_flag (initiator_of u ord) ord \<Longrightarrow>
   cooperativecancel_flag (other_role (initiator_of u ord)) ord \<Longrightarrow>
   orders (cooperativecancel_body ev u ord w)
     = (orders w)(order_id ord \<mapsto>
          (set_cooperativecancel (initiator_of u ord) ord)\<lparr>status := CANCELED\<rparr>)"
  by (cases "truthy (hash ord)"; cases "initiator_of u ord")
     (simp_all add: cooperativecancel_body_def perform_def Let_def commit_def no_failures_def
        cooperativecancel_flag_def set_cooperativecancel_def other_role_def)

lemma cooperativecancel_body_first:
  "no_failures ev \<Longrightarrow> status ord = ACTIVE \<Longrightarrow>
   \<not> cooperativecancel_flag (initiator_of u ord) ord \<Longrightarrow>
   \<not> cooperativecancel_flag (other_role (initiator_of u ord)) ord \<Longrightarrow>
   orders (cooperativecancel_body ev u ord w)
     = (orders w)(order_id ord \<mapsto> set_cooperativecancel (initiator_of u ord) ord)"
  by (cases "initiator_of u ord")
     (simp_all add: cooperativecancel_body_def perform_def Let_def commit_def no_failures_def
        cooperativecancel_flag_def set_cooperativecancel_def other_role_def)

section \<open>C7: presence checks before escrow calls\<close>





section \<open>C1: escrow calls over an order's history\<close>

text \<open>
  C1, as the claim states it, fails. The order waits for payment and has the hash \<open>h1\<close>.
  Its owner alice cancels it: \<open>cancelHoldInvoice\<close> is called for \<open>h1\<close> and the order is
  stored as \<open>CANCELED\<close>, a terminal state. Then the admin force-cancels the same order:
  \<open>cancelHoldInvoice\<close> is called for \<open>h1\<close> a second time.
\<close>

theorem double_cancel_counterexample:
  "map_option status
     (orders (cancel quiet_env spec_helpers (message ''alice'' [''/cancel'', ''o1''])
        (world_of (taken_order WAITING_PAYMENT))) ''o1'') = Some CANCELED
   \<and> terminal CANCELED
   \<and> canceled_hashes (trace
         (cancelorder quiet_env spec_helpers (message ''root'' [''/cancelorder'', ''o1''])
            (cancel quiet_env spec_helpers (message ''alice'' [''/cancel'', ''o1''])
               (world_of (taken_order WAITING_PAYMENT))))) = [Some ''h1'', Some ''h1'']"
  by (simp add: sample_defs truthy_def terminal_def cancel_def cancel_body_def cancelorder_def
        cancelorder_body_def perform_def Let_def commit_def catch_log_def)


text \<open>
  C1, amended. For the user \<open>u\<close> and the order \<open>ord\<close> a handler has validated and looked up
  (the handler then runs its body on them), in any environment: one run of owner cancel, admin force-cancel, admin force-settle,
  release or cooperative cancel makes at most one escrow call. Owner cancel and
  cooperative cancel make no escrow call on an order in a terminal state. Admin
  force-cancel and force-settle have no check of the status: on an order in any state,
  a terminal one too, force-cancel calls \<open>cancelHoldInvoice\<close> when the hash is present and
  force-settle calls \<open>settleHoldInvoice\<close> when the secret is present.
\<close>

theorem escrow_calls_per_command:
  "length (canceled_hashes (new_calls w (cancel_body ev u ord w)))
     + length (settled_secrets (new_calls w (cancel_body ev u ord w))) \<le> 1
   \<and> length (canceled_hashes (new_calls w (cancelorder_body ev u ord w)))
     + length (settled_secrets (new_calls w (cancelorder_body ev u ord w))) \<le> 1
   \<and> length (canceled_hashes (new_calls w (settleorder_body ev u ord w)))
     + length (settled_secrets (new_calls w (settleorder_body ev u ord w))) \<le> 1
   \<and> length (canceled_hashes (new_calls w (release_body ev ord w)))
     + length (settled_secrets (new_calls w (release_body ev ord w))) \<le> 1
   \<and> length (canceled_hashes (new_calls w (cooperativecancel_body ev u ord w)))
     + length (settled_secrets (new_calls w (cooperativecancel_body ev u ord w))) \<le> 1
   \<and> (terminal (status ord) \<longrightarrow>
          canceled_hashes (new_calls w (cancel_body ev u ord w)) = []
        \<and> settled_secrets (new_calls w (cancel_body ev u ord w)) = []
        \<and> canceled_hashes (new_calls w (cooperativecancel_body ev u ord w)) = []
        \<and> settled_secrets (new_calls w (cooperativecancel_body ev u ord w)) = [])
   \<and> (truthy (hash ord) \<longrightarrow>
          canceled_hashes (new_calls w (cancelorder_body ev u ord w)) = [hash ord])
   \<and> (truthy (secret ord) \<longrightarrow>
          settled_secrets (new_calls w (settleorder_body ev u ord w)) = [secret ord])"
proof -
  have a: "length (canceled_hashes (new_calls w (cancel_body ev u ord w)))
     + length (settled_secrets (new_calls w (cancel_body ev u ord w))) \<le> 1"
    by (simp add: cancel_body_escrow)
  have b: "length (canceled_hashes (new_calls w (cancelorder_body ev u ord w)))
     + length (settled_secrets (new_calls w (cancelorder_body ev u ord w))) \<le> 1"
    by (simp add: cancelorder_body_escrow)
  have c: "length (canceled_hashes (new_calls w (settleorder_body ev u ord w)))
     + length (settled_secrets (new_calls w (settleorder_body ev u ord w))) \<le> 1"
    by (simp add: settleorder_body_escrow)
  have d: "length (canceled_hashes (new_calls w (release_body ev ord w)))
     + length (settled_secrets (new_calls w (release_body ev ord w))) \<le> 1"
    by (simp add: release_body_run)
  have e: "length (canceled_hashes (new_calls w (cooperativecancel_body ev u ord w)))
     + length (settled_secrets (new_calls w (cooperativecancel_body ev u ord w))) \<le> 1"
    by (simp add: cooperativecancel_body_escrow)
  have f: "terminal (status ord) \<longrightarrow>
          canceled_hashes (new_calls w (cancel_body ev u ord w)) = []
        \<and> settled_secrets (new_calls w (cancel_body ev u ord w)) = []
        \<and> canceled_hashes (new_calls w (cooperativecancel_body ev u ord w)) = []
        \<and> settled_secrets (new_calls w (cooperativecancel_body ev u ord w)) = []"
    by (auto simp: cancel_body_escrow cooperativecancel_body_escrow terminal_def)
  have g: "truthy (hash ord) \<longrightarrow>
          canceled_hashes (new_calls w (cancelorder_body ev u ord w)) = [hash ord]"
    by (simp add: cancelorder_body_escrow)
  have h: "truthy (secret ord) \<longrightarrow>
          settled_secrets (new_calls w (settleorder_body ev u ord w)) = [secret ord]"
    by (simp add: settleorder_body_escrow)
  from a b c d e f g h show ?thesis by blast
qed

text \<open>
  On the taken order in the terminal state \<open>CANCELED\<close>, with hash \<open>h1\<close> and secret \<open>s1\<close>:
  owner cancel makes no escrow call, force-cancel cancels \<open>h1\<close>, force-settle settles with
  \<open>s1\<close>.
\<close>

theorem escrow_calls_per_command_witness:
  "terminal (status (taken_order CANCELED))
   \<and> truthy (hash (taken_order CANCELED)) \<and> truthy (secret (taken_order CANCELED))
   \<and> canceled_hashes (new_calls (world_of (taken_order CANCELED))
        (cancel_body quiet_env alice (taken_order CANCELED) (world_of (taken_order CANCELED)))) = []
   \<and> canceled_hashes (new_calls (world_of (taken_order CANCELED))
        (cancelorder_body quiet_env root (taken_order CANCELED) (world_of (taken_order CANCELED))))
       = [Some ''h1'']
   \<and> settled_secrets (new_calls (world_of (taken_order CANCELED))
        (settleorder_body quiet_env root (taken_order CANCELED) (world_of (taken_order CANCELED))))
       = [Some ''s1'']"
proof -
  let ?o = "taken_order CANCELED"
  let ?w = "world_of ?o"
  have t: "terminal (status ?o)" "truthy (hash ?o)" "truthy (secret ?o)"
    by (simp_all add: sample_defs terminal_def truthy_def)
  have v: "hash ?o = Some ''h1''" "secret ?o = Some ''s1''"
    by (simp_all add: sample_defs)
  note A = escrow_calls_per_command [of ?w quiet_env alice ?o]
  note B = escrow_calls_per_command [of ?w quiet_env root ?o]
  have r1: "canceled_hashes (new_calls ?w (cancel_body quiet_env alice ?o ?w)) = []"
    using A t(1) by blast
  have r2: "canceled_hashes (new_calls ?w (cancelorder_body quiet_env root ?o ?w)) = [hash ?o]"
    using B t(2) by blast
  have r3: "settled_secrets (new_calls ?w (settleorder_body quiet_env root ?o ?w)) = [secret ?o]"
    using B t(3) by blast
  from r1 r2 r3 t show ?thesis unfolding v by blast
qed

section \<open>Cooperative cancellation\<close>

lemma perform_all_users:
  "\<forall>e\<in>set es. \<forall>p. e \<noteq> SaveUser p \<Longrightarrow> users (snd (perform_all ev es w)) = users w"
  by (induction es arbitrary: w) (auto simp: perform_def Let_def commit_def split: effect.splits)

lemma perform_all_orders:
  "\<forall>e\<in>set es. \<forall>p. e \<noteq> SaveOrder p \<Longrightarrow> orders (snd (perform_all ev es w)) = orders w"
  by (induction es arbitrary: w) (auto simp: perform_def Let_def commit_def split: effect.splits)

lemma cooperativecancel_body_users [simp]:
  "users (cooperativecancel_body ev u ord w) = users w"
  by (simp add: cooperativecancel_body_def Let_def perform_all_users del: perform_all.simps)

lemma cooperativecancel_body_cancels_only_second:
  assumes "status ord = ACTIVE" and "orders w (order_id ord) = Some ord"
      and "orders (cooperativecancel_body ev u ord w) (order_id ord) = Some ord1"
      and "status ord1 = CANCELED"
  shows "\<not> cooperativecancel_flag (initiator_of u ord) ord
       \<and> cooperativecancel_flag (other_role (initiator_of u ord)) ord
       \<and> buyer_cooperativecancel ord1 \<and> seller_cooperativecancel ord1"
proof -
  let ?i = "initiator_of u ord"
  have keep: "cooperativecancel_flag ?i ord \<Longrightarrow>
      orders (cooperativecancel_body ev u ord w) = orders w"
    using assms(1)
    by (simp add: cooperativecancel_body_def Let_def perform_all_orders del: perform_all.simps)
  have first: "\<not> cooperativecancel_flag ?i ord \<Longrightarrow> \<not> cooperativecancel_flag (other_role ?i) ord \<Longrightarrow>
      orders (cooperativecancel_body ev u ord w) (order_id ord) = Some ord
      \<or> orders (cooperativecancel_body ev u ord w) (order_id ord)
          = Some (set_cooperativecancel ?i ord)"
    using assms(1,2)
    by (cases ?i)
       (simp_all add: cooperativecancel_body_def perform_def Let_def commit_def
          cooperativecancel_flag_def set_cooperativecancel_def other_role_def)
  have second: "\<not> cooperativecancel_flag ?i ord \<Longrightarrow> cooperativecancel_flag (other_role ?i) ord \<Longrightarrow>
      orders (cooperativecancel_body ev u ord w) (order_id ord) = Some ord
      \<or> orders (cooperativecancel_body ev u ord w) (order_id ord)
          = Some ((set_cooperativecancel ?i ord)\<lparr>status := CANCELED\<rparr>)"
    using assms(1,2)
    by (cases ?i; cases "truthy (hash ord)")
       (simp_all add: cooperativecancel_body_def perform_def Let_def commit_def
          cooperativecancel_flag_def set_cooperativecancel_def other_role_def)
  show ?thesis
  proof (cases "cooperativecancel_flag ?i ord")
    case True
    with keep assms show ?thesis by simp
  next
    case nf: False
    show ?thesis
    proof (cases "cooperativecancel_flag (other_role ?i) ord")
      case False
      with first [OF nf] assms show ?thesis
        by (cases ?i) (auto simp: set_cooperativecancel_def)
    next
      case True
      with second [OF nf] assms nf show ?thesis
        by (cases ?i)
           (auto simp: set_cooperativecancel_def cooperativecancel_flag_def other_role_def)
    qed
  qed
qed

lemma perform_all_extends:
  "\<exists>es1. trace (snd (perform_all ev es w)) = trace w @ es1"
  using perform_all_trace [of ev es w] by blast

lemma cooperativecancel_body_extends:
  "\<exists>es1. trace (cooperativecancel_body ev u ord w) = trace w @ es1"
  by (simp add: cooperativecancel_body_def Let_def perform_all_extends del: perform_all.simps)

lemma new_calls_trans:
  "trace w1 = trace w @ es1 \<Longrightarrow> trace w2 = trace w1 @ es2 \<Longrightarrow>
   new_calls w w2 = new_calls w w1 @ new_calls w1 w2"
  by (simp add: new_calls_def)

lemma initiator_of_set_cooperativecancel [simp]:
  "initiator_of u (set_cooperativecancel r ord) = initiator_of u ord"
  by (cases r) (simp_all add: initiator_of_def set_cooperativecancel_def)

lemma set_cooperativecancel_fields [simp]:
  "status (set_cooperativecancel r ord) = status ord"
  "hash (set_cooperativecancel r ord) = hash ord"
  "order_id (set_cooperativecancel r ord) = order_id ord"
  "cooperativecancel_flag r (set_cooperativecancel r ord)"
  "cooperativecancel_flag (other_role r) (set_cooperativecancel r ord)
     = cooperativecancel_flag (other_role r) ord"
  by (cases r; simp add: set_cooperativecancel_def cooperativecancel_flag_def other_role_def)+

lemma other_role_of_distinct: "r1 \<noteq> r2 \<Longrightarrow> other_role r2 = r1"
  by (cases r1; cases r2) (simp_all add: other_role_def)

text \<open>
  The two calls of the protocol on the bodies: \<open>u1\<close> asks first, \<open>u2\<close>, in the other role,
  confirms on the order as the first call stored it.
\<close>

lemma cooperativecancel_two_calls:
  assumes q: "no_failures ev" and a: "status ord = ACTIVE"
      and f1: "\<not> buyer_cooperativecancel ord" and f2: "\<not> seller_cooperativecancel ord"
      and r: "initiator_of u1 ord \<noteq> initiator_of u2 ord"
  shows "orders (cooperativecancel_body ev u2 (set_cooperativecancel (initiator_of u1 ord) ord)
                  (cooperativecancel_body ev u1 ord w))
           = (orders w)(order_id ord \<mapsto>
                ord\<lparr>buyer_cooperativecancel := True, seller_cooperativecancel := True,
                     status := CANCELED\<rparr>)"
    and "canceled_hashes (new_calls w
           (cooperativecancel_body ev u2 (set_cooperativecancel (initiator_of u1 ord) ord)
              (cooperativecancel_body ev u1 ord w)))
           = (if truthy (hash ord) then [hash ord] else [])"
    and "settled_secrets (new_calls w
           (cooperativecancel_body ev u2 (set_cooperativecancel (initiator_of u1 ord) ord)
              (cooperativecancel_body ev u1 ord w))) = []"
proof -
  let ?r1 = "initiator_of u1 ord"
  let ?o1 = "set_cooperativecancel ?r1 ord"
  let ?w1 = "cooperativecancel_body ev u1 ord w"
  let ?w2 = "cooperativecancel_body ev u2 ?o1 ?w1"
  have n1: "\<not> cooperativecancel_flag ?r1 ord" "\<not> cooperativecancel_flag (other_role ?r1) ord"
    using f1 f2 by (cases ?r1; simp add: cooperativecancel_flag_def other_role_def)+
  have o2: "other_role (initiator_of u2 ord) = ?r1"
    using r by (rule other_role_of_distinct)
  have n2: "\<not> cooperativecancel_flag (initiator_of u2 ?o1) ?o1"
    unfolding initiator_of_set_cooperativecancel using r f1 f2
    by (cases ?r1; cases "initiator_of u2 ord")
       (simp_all add: cooperativecancel_flag_def set_cooperativecancel_def)
  have y2: "cooperativecancel_flag (other_role (initiator_of u2 ?o1)) ?o1"
    by (simp add: o2)
  have s1: "orders ?w1 = (orders w)(order_id ord \<mapsto> ?o1)"
    using q a n1 by (rule cooperativecancel_body_first)
  have s2: "orders ?w2 = (orders ?w1)(order_id ?o1 \<mapsto>
              (set_cooperativecancel (initiator_of u2 ?o1) ?o1)\<lparr>status := CANCELED\<rparr>)"
    using q _ n2 y2 by (rule cooperativecancel_body_second) (simp add: a)
  have both: "(set_cooperativecancel (initiator_of u2 ord) ?o1)\<lparr>status := CANCELED\<rparr>
      = ord\<lparr>buyer_cooperativecancel := True, seller_cooperativecancel := True,
             status := CANCELED\<rparr>"
    using r
    by (cases ?r1; cases "initiator_of u2 ord") (simp_all add: set_cooperativecancel_def)
  show "orders ?w2 = (orders w)(order_id ord \<mapsto>
          ord\<lparr>buyer_cooperativecancel := True, seller_cooperativecancel := True,
               status := CANCELED\<rparr>)"
    by (simp add: s2 s1 both)
  obtain es1 where e1: "trace ?w1 = trace w @ es1"
    using cooperativecancel_body_extends by blast
  obtain es2 where e2: "trace ?w2 = trace ?w1 @ es2"
    using cooperativecancel_body_extends by blast
  have split: "new_calls w ?w2 = new_calls w ?w1 @ new_calls ?w1 ?w2"
    using e1 e2 by (rule new_calls_trans)
  have c1: "canceled_hashes (new_calls w ?w1) = []" "settled_secrets (new_calls w ?w1) = []"
    using n1 by (simp_all add: cooperativecancel_body_escrow)
  have c2: "canceled_hashes (new_calls ?w1 ?w2) = (if truthy (hash ord) then [hash ord] else [])"
    "settled_secrets (new_calls ?w1 ?w2) = []"
    using n2 y2 a by (simp_all add: cooperativecancel_body_escrow)
  show "canceled_hashes (new_calls w ?w2) = (if truthy (hash ord) then [hash ord] else [])"
    by (simp add: split c1 c2)
  show "settled_secrets (new_calls w ?w2) = []"
    by (simp add: split c1 c2)
qed


section \<open>C3: the two-party protocol\<close>

text \<open>
  C3. The caller \<open>u1\<close> asks for a cooperative cancel of the stored order \<open>ord\<close>, which is
  \<open>ACTIVE\<close>.
  \<^item> If neither flag is set and no outside call rejects, the order is stored with the
    status still \<open>ACTIVE\<close>, the flag of \<open>u1\<close>'s role set and the other flag not set, and no
    escrow call is made.
  \<^item> In any environment: if after the call the stored order is \<open>CANCELED\<close>, then the
    caller's flag was not set before, the counterparty's flag was, and both flags are set
    in the stored order; so the order is cancelled only by the call that makes both flags
    true.
  \<^item> If neither flag is set, no outside call rejects, and then \<open>u2\<close>, who has the other
    role, asks for the same order: the order is stored as \<open>CANCELED\<close> with both flags set,
    and over the two calls \<open>cancelHoldInvoice\<close> is called exactly once, with the order's
    hash, when the hash is present, and not at all when it is absent. Which of the two
    roles \<open>u1\<close> has does not matter.
\<close>

theorem cooperative_cancel_protocol:
  assumes p1: "order_id_param h c1 (validateUser h (users w) c1) = Continue (u1, i)"
      and g1: "getOrder h (orders w) u1 i = Some ord"
      and st: "orders w i = Some ord"
      and oi: "order_id ord = i"
      and ac: "status ord = ACTIVE"
  shows "(no_failures ev \<and> \<not> buyer_cooperativecancel ord \<and> \<not> seller_cooperativecancel ord \<longrightarrow>
            orders (cooperativecancel ev h c1 w) i
              = Some (set_cooperativecancel (initiator_of u1 ord) ord)
          \<and> status (set_cooperativecancel (initiator_of u1 ord) ord) = ACTIVE
          \<and> cooperativecancel_flag (initiator_of u1 ord)
                (set_cooperativecancel (initiator_of u1 ord) ord)
          \<and> \<not> cooperativecancel_flag (other_role (initiator_of u1 ord))
                (set_cooperativecancel (initiator_of u1 ord) ord)
          \<and> canceled_hashes (new_calls w (cooperativecancel ev h c1 w)) = [])
       \<and> (\<forall>ord1. orders (cooperativecancel ev h c1 w) i = Some ord1 \<and> status ord1 = CANCELED \<longrightarrow>
            \<not> cooperativecancel_flag (initiator_of u1 ord) ord
          \<and> cooperativecancel_flag (other_role (initiator_of u1 ord)) ord
          \<and> buyer_cooperativecancel ord1 \<and> seller_cooperativecancel ord1)
       \<and> (no_failures ev \<and> \<not> buyer_cooperativecancel ord \<and> \<not> seller_cooperativecancel ord
           \<and> order_id_param h c2 (validateUser h (users (cooperativecancel ev h c1 w)) c2)
                = Continue (u2, i)
           \<and> getOrder h (orders (cooperativecancel ev h c1 w)) u2 i
                = orders (cooperativecancel ev h c1 w) i
           \<and> initiator_of u1 ord \<noteq> initiator_of u2 ord \<longrightarrow>
            orders (cooperativecancel ev h c2 (cooperativecancel ev h c1 w)) i
              = Some (ord\<lparr>buyer_cooperativecancel := True, seller_cooperativecancel := True,
                           status := CANCELED\<rparr>)
          \<and> canceled_hashes (new_calls w (cooperativecancel ev h c2 (cooperativecancel ev h c1 w)))
              = (if truthy (hash ord) then [hash ord] else [])
          \<and> settled_secrets (new_calls w (cooperativecancel ev h c2 (cooperativecancel ev h c1 w)))
              = [])"
proof -
  let ?r1 = "initiator_of u1 ord"
  let ?o1 = "set_cooperativecancel ?r1 ord"
  have b1: "cooperativecancel ev h c1 w = cooperativecancel_body ev u1 ord w"
    using p1 g1 by (rule cooperativecancel_reaches_body)
  have first: "orders (cooperativecancel ev h c1 w) i = Some ?o1
      \<and> status ?o1 = ACTIVE \<and> cooperativecancel_flag ?r1 ?o1
      \<and> \<not> cooperativecancel_flag (other_role ?r1) ?o1
      \<and> canceled_hashes (new_calls w (cooperativecancel ev h c1 w)) = []"
    if q: "no_failures ev" and f1: "\<not> buyer_cooperativecancel ord"
      and f2: "\<not> seller_cooperativecancel ord"
  proof -
    have n1: "\<not> cooperativecancel_flag ?r1 ord" "\<not> cooperativecancel_flag (other_role ?r1) ord"
      using f1 f2 by (cases ?r1; simp add: cooperativecancel_flag_def other_role_def)+
    have "orders (cooperativecancel_body ev u1 ord w) = (orders w)(order_id ord \<mapsto> ?o1)"
      using q ac n1 by (rule cooperativecancel_body_first)
    then have s: "orders (cooperativecancel ev h c1 w) i = Some ?o1"
      by (simp add: b1 oi)
    have c: "canceled_hashes (new_calls w (cooperativecancel ev h c1 w)) = []"
      using n1 by (simp add: b1 cooperativecancel_body_escrow)
    from s c n1 ac show ?thesis by simp
  qed
  have only: "\<not> cooperativecancel_flag ?r1 ord \<and> cooperativecancel_flag (other_role ?r1) ord
      \<and> buyer_cooperativecancel ord1 \<and> seller_cooperativecancel ord1"
    if "orders (cooperativecancel ev h c1 w) i = Some ord1" and "status ord1 = CANCELED"
    for ord1
  proof (rule cooperativecancel_body_cancels_only_second [OF ac])
    show "orders w (order_id ord) = Some ord" using st oi by simp
    show "orders (cooperativecancel_body ev u1 ord w) (order_id ord) = Some ord1"
      using that(1) by (simp add: b1 oi)
    show "status ord1 = CANCELED" by (rule that(2))
  qed
  have two: "orders (cooperativecancel ev h c2 (cooperativecancel ev h c1 w)) i
        = Some (ord\<lparr>buyer_cooperativecancel := True, seller_cooperativecancel := True,
                     status := CANCELED\<rparr>)
      \<and> canceled_hashes (new_calls w (cooperativecancel ev h c2 (cooperativecancel ev h c1 w)))
        = (if truthy (hash ord) then [hash ord] else [])
      \<and> settled_secrets (new_calls w (cooperativecancel ev h c2 (cooperativecancel ev h c1 w)))
        = []"
    if q: "no_failures ev" and f1: "\<not> buyer_cooperativecancel ord"
      and f2: "\<not> seller_cooperativecancel ord"
      and p2: "order_id_param h c2 (validateUser h (users (cooperativecancel ev h c1 w)) c2)
                 = Continue (u2, i)"
      and g2: "getOrder h (orders (cooperativecancel ev h c1 w)) u2 i
                 = orders (cooperativecancel ev h c1 w) i"
      and r: "initiator_of u1 ord \<noteq> initiator_of u2 ord"
  proof -
    have s: "orders (cooperativecancel ev h c1 w) i = Some ?o1"
      using first [OF q f1 f2] by simp
    have g2': "getOrder h (orders (cooperativecancel ev h c1 w)) u2 i = Some ?o1"
      using g2 s by simp
    have b2: "cooperativecancel ev h c2 (cooperativecancel ev h c1 w)
        = cooperativecancel_body ev u2 ?o1 (cooperativecancel_body ev u1 ord w)"
      using cooperativecancel_reaches_body [OF p2 g2', of ev] by (simp add: b1)
    show ?thesis
      unfolding b2 using cooperativecancel_two_calls [OF q ac f1 f2 r, of w]
      by (simp add: oi)
  qed
  from first only two show ?thesis by blast
qed


text \<open>
  Bob, the buyer, and alice, the seller, of an active order with the hash \<open>h1\<close>: after the
  first request the order is still \<open>ACTIVE\<close>; after the second it is \<open>CANCELED\<close> and \<open>h1\<close>
  has been cancelled once, whoever asked first.
\<close>

theorem cooperative_cancel_protocol_witness:
  "status (taken_order ACTIVE) = ACTIVE \<and> no_failures quiet_env
   \<and> initiator_of bob (taken_order ACTIVE) \<noteq> initiator_of alice (taken_order ACTIVE)
   \<and> map_option status
        (orders (cooperativecancel quiet_env spec_helpers
           (message ''bob'' [''/cooperativecancel'', ''o1'']) (world_of (taken_order ACTIVE)))
           ''o1'') = Some ACTIVE
   \<and> map_option status
        (orders (cooperativecancel quiet_env spec_helpers
           (message ''alice'' [''/cooperativecancel'', ''o1''])
           (cooperativecancel quiet_env spec_helpers
              (message ''bob'' [''/cooperativecancel'', ''o1'']) (world_of (taken_order ACTIVE))))
           ''o1'') = Some CANCELED
   \<and> canceled_hashes (new_calls (world_of (taken_order ACTIVE))
        (cooperativecancel quiet_env spec_helpers
           (message ''alice'' [''/cooperativecancel'', ''o1''])
           (cooperativecancel quiet_env spec_helpers
              (message ''bob'' [''/cooperativecancel'', ''o1'']) (world_of (taken_order ACTIVE)))))
       = [Some ''h1'']
   \<and> map_option status
        (orders (cooperativecancel quiet_env spec_helpers
           (message ''bob'' [''/cooperativecancel'', ''o1''])
           (cooperativecancel quiet_env spec_helpers
              (message ''alice'' [''/cooperativecancel'', ''o1'']) (world_of (taken_order ACTIVE))))
           ''o1'') = Some CANCELED
   \<and> canceled_hashes (new_calls (world_of (taken_order ACTIVE))
        (cooperativecancel quiet_env spec_helpers
           (message ''bob'' [''/cooperativecancel'', ''o1''])
           (cooperativecancel quiet_env spec_helpers
              (message ''alice'' [''/cooperativecancel'', ''o1'']) (world_of (taken_order ACTIVE)))))
       = [Some ''h1'']"
proof -
  let ?o = "taken_order ACTIVE"
  let ?w = "world_of ?o"
  let ?cb = "message ''bob'' [''/cooperativecancel'', ''o1'']"
  let ?ca = "message ''alice'' [''/cooperativecancel'', ''o1'']"
  let ?h = spec_helpers
  let ?wb = "cooperativecancel quiet_env ?h ?cb ?w"
  let ?wa = "cooperativecancel quiet_env ?h ?ca ?w"
  have q: "no_failures quiet_env" by (simp add: sample_defs)
  have pb: "order_id_param ?h ?cb (validateUser ?h (users ?w) ?cb) = Continue (bob, ''o1'')"
    by (simp add: sample_defs)
  have pa: "order_id_param ?h ?ca (validateUser ?h (users ?w) ?ca) = Continue (alice, ''o1'')"
    by (simp add: sample_defs)
  have gb: "getOrder ?h (orders ?w) bob ''o1'' = Some ?o"
    and ga: "getOrder ?h (orders ?w) alice ''o1'' = Some ?o"
    and st: "orders ?w ''o1'' = Some ?o"
    and oi: "order_id ?o = ''o1''"
    and ac: "status ?o = ACTIVE"
    and fl: "\<not> buyer_cooperativecancel ?o" "\<not> seller_cooperativecancel ?o"
    and hs: "hash ?o = Some ''h1''" "truthy (hash ?o)"
    by (simp_all add: sample_defs truthy_def)
  have rb: "initiator_of bob ?o = Buyer" and ra: "initiator_of alice ?o = Seller"
    by (simp_all add: sample_defs initiator_of_def)
  have ub: "users ?wb = users ?w"
    by (simp add: cooperativecancel_reaches_body [OF pb gb])
  have ua: "users ?wa = users ?w"
    by (simp add: cooperativecancel_reaches_body [OF pa ga])
  have pb2: "order_id_param ?h ?cb (validateUser ?h (users ?wa) ?cb) = Continue (bob, ''o1'')"
    unfolding ua by (rule pb)
  have pa2: "order_id_param ?h ?ca (validateUser ?h (users ?wb) ?ca) = Continue (alice, ''o1'')"
    unfolding ub by (rule pa)
  have g2: "getOrder ?h os u k = os k" for os u k
    by (simp add: spec_helpers_def)
  note B = cooperative_cancel_protocol [OF pb gb st oi ac,
      where ev = quiet_env and ?c2.0 = ?ca and ?u2.0 = alice]
  note A = cooperative_cancel_protocol [OF pa ga st oi ac,
      where ev = quiet_env and ?c2.0 = ?cb and ?u2.0 = bob]
  have b1: "orders ?wb ''o1'' = Some (set_cooperativecancel (initiator_of bob ?o) ?o)"
    using B q fl by blast
  have b1s: "map_option status (orders ?wb ''o1'') = Some ACTIVE"
    by (simp add: b1 ac)
  have b2: "orders (cooperativecancel quiet_env ?h ?ca ?wb) ''o1''
              = Some (?o\<lparr>buyer_cooperativecancel := True, seller_cooperativecancel := True,
                          status := CANCELED\<rparr>)
            \<and> canceled_hashes (new_calls ?w (cooperativecancel quiet_env ?h ?ca ?wb))
              = (if truthy (hash ?o) then [hash ?o] else [])"
    using B q fl pa2 g2 [of "orders ?wb" alice "''o1''"] rb ra by simp
  have a2: "orders (cooperativecancel quiet_env ?h ?cb ?wa) ''o1''
              = Some (?o\<lparr>buyer_cooperativecancel := True, seller_cooperativecancel := True,
                          status := CANCELED\<rparr>)
            \<and> canceled_hashes (new_calls ?w (cooperativecancel quiet_env ?h ?cb ?wa))
              = (if truthy (hash ?o) then [hash ?o] else [])"
    using A q fl pb2 g2 [of "orders ?wa" bob "''o1''"] rb ra by simp
  from b1s b2 a2 q ac rb ra hs show ?thesis by simp
qed

section \<open>C10: a failure in the second confirmation\<close>

lemma perform_all_console [simp]:
  "console (snd (perform_all ev es w)) = console w"
  by (induction es arbitrary: w) (auto simp: perform_def Let_def)

lemma perform_all_rejected:
  "\<exists>k<length es. fails ev (trace w @ take k es) (es ! k) \<Longrightarrow>
   fst (perform_all ev es w) = Some CallRejected"
proof (induction es arbitrary: w)
  case Nil
  then show ?case by simp
next
  case (Cons e es)
  show ?case
  proof (cases "fails ev (trace w) e")
    case True
    then show ?thesis by (simp add: perform_def)
  next
    case False
    let ?w1 = "commit e (w\<lparr>trace := trace w @ [e]\<rparr>)"
    from Cons.prems obtain k where k: "k < length (e # es)"
      "fails ev (trace w @ take k (e # es)) ((e # es) ! k)" by blast
    with False obtain j where j: "k = Suc j" by (cases k) auto
    with k have "j < length es" "fails ev (trace ?w1 @ take j es) (es ! j)" by simp_all
    then have "fst (perform_all ev es ?w1) = Some CallRejected"
      using Cons.IH [of ?w1] by blast
    with False show ?thesis by (simp add: perform_def)
  qed
qed

lemma perform_all_stops:
  assumes "fst (perform_all ev es w) = Some x"
  shows "perform_all ev (es @ fs) w = perform_all ev es w"
  using assms by (cases "perform_all ev es w") (simp add: perform_all_append)

lemma set_cooperativecancel_postings [simp]:
  "tg_channel_message1 (set_cooperativecancel r ord) = tg_channel_message1 ord"
  "tg_channel_message2 (set_cooperativecancel r ord) = tg_channel_message2 ord"
  by (cases r; simp add: set_cooperativecancel_def)+

lemma cooperativecancel_body_second_run:
  assumes "status ord = ACTIVE"
      and "\<not> cooperativecancel_flag (initiator_of u ord) ord"
      and "cooperativecancel_flag (other_role (initiator_of u ord)) ord"
  shows "cooperativecancel_body ev u ord w =
     catch_log (perform_all ev
       (((if truthy (hash ord) then [CancelHoldInvoice (hash ord)] else []) @
         [CustomMessage (Some u) (YouCanceledOrder (order_id ord)),
          CustomMessage
            (case initiator_of u ord of
               Buyer \<Rightarrow> findOne_id (users w) (seller_id ord)
             | Seller \<Rightarrow> findOne_id (users w) (buyer_id ord))
            (CounterpartyAgreedCanceled (order_id ord)),
          DeleteMessage (Channel (CHANNEL ev)) (tg_channel_message1 ord),
          DeleteMessage (Channel (CHANNEL ev)) (tg_channel_message2 ord)]) @
        [SaveOrder ((set_cooperativecancel (initiator_of u ord) ord)\<lparr>status := CANCELED\<rparr>)]) w)"
  using assms
  by (simp add: cooperativecancel_body_def Let_def del: perform_all.simps)


text \<open>
  C10. The caller's flag is not set and the counterparty's is: the call is the second
  confirmation. \<open>es\<close> are the outside calls the branch makes before \<open>order.save()\<close>: the
  escrow cancel (when the hash is present), the two messages and the two deletions.
  \<^item> When no outside call rejects, these calls are made in this order, the save comes
    last, and the order is stored as \<open>CANCELED\<close> with the caller's flag set.
  \<^item> When one of the calls of \<open>es\<close> rejects, the handler catches and logs the error, no
    save is made and the stored orders are as before (the order is still \<open>ACTIVE\<close>,
    without the second flag); yet, when the hash is present, \<open>cancelHoldInvoice\<close> has been
    called for it.
\<close>

theorem cooperative_cancel_failure:
  assumes p1: "order_id_param h c (validateUser h (users w) c) = Continue (u, i)"
      and g1: "getOrder h (orders w) u i = Some ord"
      and ac: "status ord = ACTIVE"
      and nf: "\<not> cooperativecancel_flag (initiator_of u ord) ord"
      and yf: "cooperativecancel_flag (other_role (initiator_of u ord)) ord"
      and es: "es = (if truthy (hash ord) then [CancelHoldInvoice (hash ord)] else []) @
                 [CustomMessage (Some u) (YouCanceledOrder (order_id ord)),
                  CustomMessage
                    (case initiator_of u ord of
                       Buyer \<Rightarrow> findOne_id (users w) (seller_id ord)
                     | Seller \<Rightarrow> findOne_id (users w) (buyer_id ord))
                    (CounterpartyAgreedCanceled (order_id ord)),
                  DeleteMessage (Channel (CHANNEL ev)) (tg_channel_message1 ord),
                  DeleteMessage (Channel (CHANNEL ev)) (tg_channel_message2 ord)]"
  shows "(no_failures ev \<longrightarrow>
            new_calls w (cooperativecancel ev h c w)
              = es @ [SaveOrder ((set_cooperativecancel (initiator_of u ord) ord)
                                   \<lparr>status := CANCELED\<rparr>)]
          \<and> orders (cooperativecancel ev h c w)
              = (orders w)(order_id ord \<mapsto>
                   (set_cooperativecancel (initiator_of u ord) ord)\<lparr>status := CANCELED\<rparr>))
       \<and> ((\<exists>k<length es. fails ev (trace w @ take k es) (es ! k)) \<longrightarrow>
            orders (cooperativecancel ev h c w) = orders w
          \<and> (\<forall>p. SaveOrder p \<notin> set (new_calls w (cooperativecancel ev h c w)))
          \<and> console (cooperativecancel ev h c w) = console w @ [CallRejected]
          \<and> (truthy (hash ord) \<longrightarrow>
                canceled_hashes (new_calls w (cooperativecancel ev h c w)) = [hash ord]))"
proof -
  let ?save = "SaveOrder ((set_cooperativecancel (initiator_of u ord) ord)\<lparr>status := CANCELED\<rparr>)"
  have b: "cooperativecancel ev h c w = cooperativecancel_body ev u ord w"
    using p1 g1 by (rule cooperativecancel_reaches_body)
  have run: "cooperativecancel_body ev u ord w = catch_log (perform_all ev (es @ [?save]) w)"
    unfolding es using ac nf yf by (rule cooperativecancel_body_second_run)
  have nosave: "\<forall>e\<in>set es. \<forall>p. e \<noteq> SaveOrder p"
    by (simp add: es)
  have quiet: "new_calls w (cooperativecancel ev h c w) = es @ [?save]
      \<and> orders (cooperativecancel ev h c w)
          = (orders w)(order_id ord \<mapsto>
               (set_cooperativecancel (initiator_of u ord) ord)\<lparr>status := CANCELED\<rparr>)"
    if q: "no_failures ev"
  proof -
    have "fst (perform_all ev (es @ [?save]) w) = None"
      using q by (simp add: perform_all_quiet)
    then have "trace (snd (perform_all ev (es @ [?save]) w)) = trace w @ (es @ [?save])"
      by (rule perform_all_ok_trace)
    then have t: "new_calls w (cooperativecancel ev h c w) = es @ [?save]"
      unfolding b run by (simp del: perform_all.simps)
    have o: "orders (cooperativecancel ev h c w)
          = (orders w)(order_id ord \<mapsto>
               (set_cooperativecancel (initiator_of u ord) ord)\<lparr>status := CANCELED\<rparr>)"
      unfolding b using q ac nf yf by (rule cooperativecancel_body_second)
    from t o show ?thesis by simp
  qed
  have failing: "orders (cooperativecancel ev h c w) = orders w
      \<and> (\<forall>p. SaveOrder p \<notin> set (new_calls w (cooperativecancel ev h c w)))
      \<and> console (cooperativecancel ev h c w) = console w @ [CallRejected]
      \<and> (truthy (hash ord) \<longrightarrow>
            canceled_hashes (new_calls w (cooperativecancel ev h c w)) = [hash ord])"
    if f: "\<exists>k<length es. fails ev (trace w @ take k es) (es ! k)"
  proof -
    have r: "fst (perform_all ev es w) = Some CallRejected"
      using f by (rule perform_all_rejected)
    then have stop: "perform_all ev (es @ [?save]) w = perform_all ev es w"
      by (rule perform_all_stops)
    have w1: "cooperativecancel ev h c w = console_log CallRejected (snd (perform_all ev es w))"
      unfolding b run stop using r
      by (cases "perform_all ev es w") (simp add: catch_log_def)
    have o: "orders (cooperativecancel ev h c w) = orders w"
      unfolding w1 using perform_all_orders [OF nosave, of ev w] by (simp add: console_log_def)
    obtain n where n: "trace (snd (perform_all ev es w)) = trace w @ take n es"
      using perform_all_trace by blast
    then have "new_calls w (cooperativecancel ev h c w) = take n es"
      unfolding w1 by (simp add: console_log_def new_calls_def)
    then have s: "\<forall>p. SaveOrder p \<notin> set (new_calls w (cooperativecancel ev h c w))"
      using nosave by (auto dest: in_set_takeD)
    have l: "console (cooperativecancel ev h c w) = console w @ [CallRejected]"
      unfolding w1 by (simp add: console_log_def)
    have e: "truthy (hash ord) \<longrightarrow>
        canceled_hashes (new_calls w (cooperativecancel ev h c w)) = [hash ord]"
      unfolding b using ac nf yf by (simp add: cooperativecancel_body_escrow)
    from o s l e show ?thesis by blast
  qed
  from quiet failing show ?thesis by blast
qed


text \<open>
  Alice has asked already; bob confirms, and the deletion of the second channel posting
  is rejected. The hash \<open>h1\<close> has been cancelled, but the stored order is still \<open>ACTIVE\<close>
  and bob's flag is not recorded.
\<close>

theorem cooperative_cancel_failure_witness:
  "status order_alice_asked = ACTIVE
   \<and> \<not> cooperativecancel_flag (initiator_of bob order_alice_asked) order_alice_asked
   \<and> cooperativecancel_flag (other_role (initiator_of bob order_alice_asked)) order_alice_asked
   \<and> fails env_posting2_fails []
        (DeleteMessage (Channel (CHANNEL env_posting2_fails))
           (tg_channel_message2 order_alice_asked))
   \<and> orders (cooperativecancel env_posting2_fails spec_helpers
         (message ''bob'' [''/cooperativecancel'', ''o1'']) (world_of order_alice_asked))
       = orders (world_of order_alice_asked)
   \<and> map_option status (orders (world_of order_alice_asked) ''o1'') = Some ACTIVE
   \<and> map_option buyer_cooperativecancel (orders (world_of order_alice_asked) ''o1'') = Some False
   \<and> canceled_hashes (new_calls (world_of order_alice_asked)
        (cooperativecancel env_posting2_fails spec_helpers
           (message ''bob'' [''/cooperativecancel'', ''o1'']) (world_of order_alice_asked)))
       = [Some ''h1'']
   \<and> console (cooperativecancel env_posting2_fails spec_helpers
         (message ''bob'' [''/cooperativecancel'', ''o1'']) (world_of order_alice_asked))
       = [CallRejected]"
proof -
  let ?o = order_alice_asked
  let ?w = "world_of ?o"
  let ?c = "message ''bob'' [''/cooperativecancel'', ''o1'']"
  let ?ev = env_posting2_fails
  let ?es = "(if truthy (hash ?o) then [CancelHoldInvoice (hash ?o)] else []) @
                 [CustomMessage (Some bob) (YouCanceledOrder (order_id ?o)),
                  CustomMessage
                    (case initiator_of bob ?o of
                       Buyer \<Rightarrow> findOne_id (users ?w) (seller_id ?o)
                     | Seller \<Rightarrow> findOne_id (users ?w) (buyer_id ?o))
                    (CounterpartyAgreedCanceled (order_id ?o)),
                  DeleteMessage (Channel (CHANNEL ?ev)) (tg_channel_message1 ?o),
                  DeleteMessage (Channel (CHANNEL ?ev)) (tg_channel_message2 ?o)]"
  have p1: "order_id_param spec_helpers ?c (validateUser spec_helpers (users ?w) ?c)
              = Continue (bob, ''o1'')"
    by (simp add: sample_defs)
  have g1: "getOrder spec_helpers (orders ?w) bob ''o1'' = Some ?o"
    by (simp add: sample_defs order_alice_asked_def)
  have ac: "status ?o = ACTIVE"
    and nf: "\<not> cooperativecancel_flag (initiator_of bob ?o) ?o"
    and yf: "cooperativecancel_flag (other_role (initiator_of bob ?o)) ?o"
    and hs: "truthy (hash ?o)" "hash ?o = Some ''h1''"
    and fl: "buyer_cooperativecancel ?o = False"
    and st: "orders ?w ''o1'' = Some ?o"
    by (simp_all add: sample_defs order_alice_asked_def initiator_of_def other_role_def
          cooperativecancel_flag_def truthy_def)
  have bad: "fails ?ev tr (DeleteMessage (Channel (CHANNEL ?ev)) (tg_channel_message2 ?o))" for tr
    by (simp add: env_posting2_fails_def sample_defs order_alice_asked_def)
  have len: "length ?es = 5" "?es ! 4 = DeleteMessage (Channel (CHANNEL ?ev)) (tg_channel_message2 ?o)"
    using hs(1) by simp_all
  have k: "\<exists>k<length ?es. fails ?ev (trace ?w @ take k ?es) (?es ! k)"
  proof (intro exI conjI)
    show "4 < length ?es" unfolding len by simp
    show "fails ?ev (trace ?w @ take 4 ?es) (?es ! 4)" unfolding len by (rule bad)
  qed
  note T = cooperative_cancel_failure [OF p1 g1 ac nf yf refl, of ?ev]
  have r: "orders (cooperativecancel ?ev spec_helpers ?c ?w) = orders ?w
      \<and> console (cooperativecancel ?ev spec_helpers ?c ?w) = console ?w @ [CallRejected]
      \<and> canceled_hashes (new_calls ?w (cooperativecancel ?ev spec_helpers ?c ?w)) = [hash ?o]"
    using T k hs(1) by blast
  have c0: "console ?w = []" by (simp add: world_of_def)
  from r ac nf yf bad [of "[]"] st fl hs(2) c0 show ?thesis by simp
qed

section \<open>C9: the ban command\<close>

lemma ban_params_unbound:
  "read_identifier (ban_scope adminUser uname u) ''params'' = Inl (ReferenceError ''params'')"
  by (simp add: read_identifier_def ban_scope_def)

lemma perform_all_single_no_save:
  "\<not> is_save e \<Longrightarrow>
   users (catch_log (perform_all ev [e] w)) = users w
   \<and> orders (catch_log (perform_all ev [e] w)) = orders w
   \<and> new_calls w (catch_log (perform_all ev [e] w)) = [e]"
  by (simp add: perform_def Let_def new_calls_def)

text \<open>
  C9. Whatever the environment, the helpers and the message, the ban command leaves the
  stored users and orders as they are and never calls \<open>user.save()\<close>. When the admin is
  validated, a username is given and a user of that name is found, the handler throws
  \<open>ReferenceError\<close> on reading \<open>params\<close>, before \<open>user.banned = true\<close>; the error is caught
  and logged, and nothing else happens.
\<close>

theorem ban_never_bans:
  "users (ban ev h c w) = users w
   \<and> orders (ban ev h c w) = orders w
   \<and> (\<forall>p. SaveUser p \<notin> set (new_calls w (ban ev h c w)))
   \<and> (validateAdmin h (users w) c = Some adminUser
        \<and> validateParams h c adminUser 2 ''<username>'' = Some (uname # rest)
        \<and> uname \<noteq> []
        \<and> findOne_username (users w) uname = Some u \<longrightarrow>
          ban ev h c w = console_log (ReferenceError ''params'') w)"
proof -
  have found: "ban ev h c w = console_log (ReferenceError ''params'') w"
    if "validateAdmin h (users w) c = Some adminUser"
      and "validateParams h c adminUser 2 ''<username>'' = Some (uname # rest)"
      and "uname \<noteq> []" and "findOne_username (users w) uname = Some u"
    using that by (simp add: ban_def ban_params_unbound)
  have nf: "\<not> is_save (NotFoundUserMessage a)" for a by simp
  have quiet: "users (ban ev h c w) = users w \<and> orders (ban ev h c w) = orders w
      \<and> (\<forall>p. SaveUser p \<notin> set (new_calls w (ban ev h c w)))"
    using perform_all_single_no_save [OF nf, of ev _ w]
    by (auto simp: ban_def ban_params_unbound console_log_def new_calls_def
          simp del: perform_all.simps
          split: option.splits list.splits)
  from found quiet show ?thesis by blast
qed

text \<open>
  The admin \<open>root\<close> bans \<open>bob\<close>: the handler logs the \<open>ReferenceError\<close>, and bob is stored
  as before, not banned.
\<close>

theorem ban_never_bans_witness:
  "validateAdmin spec_helpers (users (world_of order1)) (message ''root'' [''/ban'', ''bob''])
     = Some root
   \<and> validateParams spec_helpers (message ''root'' [''/ban'', ''bob'']) root 2 ''<username>''
       = Some [''bob'']
   \<and> findOne_username (users (world_of order1)) ''bob'' = Some bob
   \<and> console (ban quiet_env spec_helpers (message ''root'' [''/ban'', ''bob'']) (world_of order1))
       = [ReferenceError ''params'']
   \<and> findOne_username
        (users (ban quiet_env spec_helpers (message ''root'' [''/ban'', ''bob'']) (world_of order1)))
        ''bob'' = Some bob
   \<and> \<not> banned bob"
proof -
  let ?c = "message ''root'' [''/ban'', ''bob'']"
  let ?w = "world_of order1"
  have a: "validateAdmin spec_helpers (users ?w) ?c = Some root"
    and p: "validateParams spec_helpers ?c root 2 ''<username>'' = Some [''bob'']"
    and f: "findOne_username (users ?w) ''bob'' = Some bob"
    and n: "\<not> banned bob" "console ?w = []"
    by (simp_all add: sample_defs)
  note T = ban_never_bans [of quiet_env spec_helpers ?c ?w root "''bob''" "[]" bob]
  have r: "ban quiet_env spec_helpers ?c ?w = console_log (ReferenceError ''params'') ?w"
    using T a p f by simp
  have u: "users (ban quiet_env spec_helpers ?c ?w) = users ?w"
    using T by blast
  from a p f n u r show ?thesis by (simp add: console_log_def)
qed

section \<open>C8: the earnings message\<close>

lemma ctx_reply_replies [simp]: "replies (ctx_reply ev r w) = replies w @ [r]"
  by (simp add: ctx_reply_def Let_def)

text \<open>
  C8. For the community id \<open>cid\<close>, in any environment:
  \<^item> if some pending payment of that community is unpaid and has fewer attempts than the
    configured maximum, the handler replies \<open>invoice_already_being_paid\<close>, with no button;
  \<^item> otherwise, when the community is found, it replies with the current earnings, and
    the reply carries the \<open>withdraw_earnings\<close> button exactly when the earnings are
    greater than 0.
\<close>

theorem earnings_deduplicates:
  "((\<exists>p\<in>set (pending_payments w).
        pp_community_id p = cid \<and> \<not> paid p
        \<and> (\<exists>m. PAYMENT_ATTEMPTS ev = Some m \<and> attempts p < m)) \<longrightarrow>
      replies (earningsMessage ev cid w)
        = replies w @ [Reply (T ''invoice_already_being_paid'' []) None])
   \<and> (\<not> (\<exists>p\<in>set (pending_payments w).
        pp_community_id p = cid \<and> \<not> paid p
        \<and> (\<exists>m. PAYMENT_ATTEMPTS ev = Some m \<and> attempts p < m))
      \<and> find (\<lambda>m. community_id m = cid) (communities w) = Some com \<longrightarrow>
      (\<exists>b. replies (earningsMessage ev cid w)
              = replies w @ [Reply (T ''current_earnings''
                   [(''ordersToRedeem'', orders_to_redeem com), (''earnings'', earnings com)]) b]
           \<and> (b \<noteq> None) = (earnings com > 0)
           \<and> (earnings com > 0 \<longrightarrow>
                b = Some \<lparr>button_text = T ''withdraw_earnings'' [],
                          callback_data = ''withdrawEarnings_'' @ community_id com\<rparr>)))"
proof -
  let ?dup = "\<exists>p\<in>set (pending_payments w).
        pp_community_id p = cid \<and> \<not> paid p
        \<and> (\<exists>m. PAYMENT_ATTEMPTS ev = Some m \<and> attempts p < m)"
  have sch: "scheduled ev cid p =
      (pp_community_id p = cid \<and> \<not> paid p \<and> (\<exists>m. PAYMENT_ATTEMPTS ev = Some m \<and> attempts p < m))"
    for p
    by (auto simp: scheduled_def below_attempts_def split: option.splits)
  have none: "find (scheduled ev cid) (pending_payments w) = None \<longleftrightarrow> \<not> ?dup"
    by (auto simp: find_None_iff sch)
  have a: "replies (earningsMessage ev cid w)
        = replies w @ [Reply (T ''invoice_already_being_paid'' []) None]" if ?dup
  proof -
    from that none obtain p where "find (scheduled ev cid) (pending_payments w) = Some p"
      by (cases "find (scheduled ev cid) (pending_payments w)") auto
    then show ?thesis by (simp add: earningsMessage_def)
  qed
  have b: "\<exists>b. replies (earningsMessage ev cid w)
              = replies w @ [Reply (T ''current_earnings''
                   [(''ordersToRedeem'', orders_to_redeem com), (''earnings'', earnings com)]) b]
           \<and> (b \<noteq> None) = (earnings com > 0)
           \<and> (earnings com > 0 \<longrightarrow>
                b = Some \<lparr>button_text = T ''withdraw_earnings'' [],
                          callback_data = ''withdrawEarnings_'' @ community_id com\<rparr>)"
    if "\<not> ?dup" and "find (\<lambda>m. community_id m = cid) (communities w) = Some com"
  proof -
    from that(1) none have "find (scheduled ev cid) (pending_payments w) = None" by blast
    with that(2) show ?thesis by (simp add: earningsMessage_def)
  qed
  from a b show ?thesis by blast
qed

text \<open>
  A community with earnings 500: with an unpaid payment at 1 of 3 attempts the reply has
  no button; once that payment has used its 3 attempts the button is offered.
\<close>

theorem earnings_deduplicates_witness:
  "replies (earningsMessage \<lparr>reply_fails = (\<lambda>rs r. False), PAYMENT_ATTEMPTS = Some 3\<rparr> ''c1''
      \<lparr>pending_payments = [\<lparr>pp_community_id = ''c1'', attempts = 1, paid = False\<rparr>],
       communities = [\<lparr>community_id = ''c1'', earnings = 500, orders_to_redeem = 2\<rparr>],
       replies = [], logged = []\<rparr>)
     = [Reply (T ''invoice_already_being_paid'' []) None]
   \<and> replies (earningsMessage \<lparr>reply_fails = (\<lambda>rs r. False), PAYMENT_ATTEMPTS = Some 3\<rparr> ''c1''
      \<lparr>pending_payments = [\<lparr>pp_community_id = ''c1'', attempts = 3, paid = False\<rparr>],
       communities = [\<lparr>community_id = ''c1'', earnings = 500, orders_to_redeem = 2\<rparr>],
       replies = [], logged = []\<rparr>)
     = [Reply (T ''current_earnings'' [(''ordersToRedeem'', 2), (''earnings'', 500)])
          (Some \<lparr>button_text = T ''withdraw_earnings'' [],
                 callback_data = ''withdrawEarnings_c1''\<rparr>)]"
proof -
  let ?ev = "\<lparr>reply_fails = (\<lambda>rs r. False), PAYMENT_ATTEMPTS = Some 3\<rparr>"
  let ?com = "\<lparr>community_id = ''c1'', earnings = 500, orders_to_redeem = 2\<rparr>"
  let ?w1 = "\<lparr>pending_payments = [\<lparr>pp_community_id = ''c1'', attempts = 1, paid = False\<rparr>],
       communities = [?com], replies = [], logged = []\<rparr>"
  let ?w2 = "\<lparr>pending_payments = [\<lparr>pp_community_id = ''c1'', attempts = 3, paid = False\<rparr>],
       communities = [?com], replies = [], logged = []\<rparr>"
  have d1: "\<exists>p\<in>set (pending_payments ?w1).
        pp_community_id p = ''c1'' \<and> \<not> paid p
        \<and> (\<exists>m. PAYMENT_ATTEMPTS ?ev = Some m \<and> attempts p < m)"
    by simp
  have d2: "\<not> (\<exists>p\<in>set (pending_payments ?w2).
        pp_community_id p = ''c1'' \<and> \<not> paid p
        \<and> (\<exists>m. PAYMENT_ATTEMPTS ?ev = Some m \<and> attempts p < m))"
    by simp
  have f2: "find (\<lambda>m. community_id m = ''c1'') (communities ?w2) = Some ?com"
    by simp
  have r1: "replies (earningsMessage ?ev ''c1'' ?w1)
      = replies ?w1 @ [Reply (T ''invoice_already_being_paid'' []) None]"
    using earnings_deduplicates [of ?w1 "''c1''" ?ev ?com] d1 by blast
  have r2: "\<exists>b. replies (earningsMessage ?ev ''c1'' ?w2)
              = replies ?w2 @ [Reply (T ''current_earnings''
                   [(''ordersToRedeem'', orders_to_redeem ?com), (''earnings'', earnings ?com)]) b]
           \<and> (b \<noteq> None) = (earnings ?com > 0)
           \<and> (earnings ?com > 0 \<longrightarrow>
                b = Some \<lparr>button_text = T ''withdraw_earnings'' [],
                          callback_data = ''withdrawEarnings_'' @ community_id ?com\<rparr>)"
    using earnings_deduplicates [of ?w2 "''c1''" ?ev ?com] d2 f2 by blast
  from r1 r2 show ?thesis by auto
qed

section \<open>C4: opening a dispute\<close>





lemma count_dispute_fields [simp]:
  "uid (count_dispute ev p) = uid p"
  "disputes (count_dispute ev p) = disputes p + 1"
  "banned (count_dispute ev p) = (banned p \<or> reaches_max ev (disputes p + 1))"
  by (simp_all add: count_dispute_def Let_def)






section \<open>C6: taking a sell order\<close>

lemma takesell_reaches_try:
  "validateUser h (users w) c = Some u \<Longrightarrow>
   validateTakeSell h c u = Some (Some i, lnInvoice) \<Longrightarrow> i \<noteq> [] \<Longrightarrow>
   takesell ev h c w = takesell_try ev h c u i lnInvoice w"
  by (simp add: takesell_def)

lemma takesell_catch_fields [simp]:
  "orders (takesell_catch ev u x w) = orders w"
  "users (takesell_catch ev u x w) = users w"
  "trace (takesell_catch ev u x w) = trace w @ [InvalidDataMessage u]"
  by (simp_all add: takesell_catch_def perform_def Let_def console_log_def)

lemma takesell_try_create_fails:
  assumes "orders w i = Some ord" and "validateTakeSellOrder h u lnInvoice (Some ord)"
      and "fails ev (trace w)
             (CreateHoldInvoice (floor (amount ord + fee ord)) (''Venta por @'' @ botInfo_username c))"
  shows "orders (takesell_try ev h c u i lnInvoice w) = orders w"
    and "trace (takesell_try ev h c u i lnInvoice w) = trace w @
           [CreateHoldInvoice (floor (amount ord + fee ord)) (''Venta por @'' @ botInfo_username c),
            InvalidDataMessage u]"
  using assms by (simp_all add: takesell_try_def Let_def perform_def)


lemma takesell_try_save_fails:
  assumes "orders w i = Some ord" and "validateTakeSellOrder h u lnInvoice (Some ord)"
      and "create = CreateHoldInvoice (floor (amount ord + fee ord))
                      (''Venta por @'' @ botInfo_username c)"
      and "created = new_invoice ev (trace w) (floor (amount ord + fee ord))
                      (''Venta por @'' @ botInfo_username c)"
      and "ord2 = ord\<lparr>status := WAITING_PAYMENT, buyer_id := Some (uid u),
                       buyer_invoice := lnInvoice, hash := Some (inv_hash created),
                       secret := Some (inv_secret created),
                       taken_at := Some (date_now ev (trace w @ [create]))\<rparr>"
      and "\<not> fails ev (trace w) create"
      and "fails ev (trace w @ [create]) (SaveOrder ord2)"
  shows "orders (takesell_try ev h c u i lnInvoice w) = orders w"
  using assms by (simp add: takesell_try_def Let_def perform_def commit_def)

lemma takesell_try_saved:
  assumes "orders w i = Some ord" and "validateTakeSellOrder h u lnInvoice (Some ord)"
      and "create = CreateHoldInvoice (floor (amount ord + fee ord))
                      (''Venta por @'' @ botInfo_username c)"
      and "created = new_invoice ev (trace w) (floor (amount ord + fee ord))
                      (''Venta por @'' @ botInfo_username c)"
      and "ord2 = ord\<lparr>status := WAITING_PAYMENT, buyer_id := Some (uid u),
                       buyer_invoice := lnInvoice, hash := Some (inv_hash created),
                       secret := Some (inv_secret created),
                       taken_at := Some (date_now ev (trace w @ [create]))\<rparr>"
      and "\<not> fails ev (trace w) create"
      and "\<not> fails ev (trace w @ [create]) (SaveOrder ord2)"
  shows "orders (takesell_try ev h c u i lnInvoice w) = (orders w)(order_id ord \<mapsto> ord2)"
    and "take 3 (new_calls w (takesell_try ev h c u i lnInvoice w))
           = [create, SaveOrder ord2, SubscribeInvoice (inv_hash created)]"
  using assms
  by (simp_all add: takesell_try_def Let_def perform_def commit_def new_calls_def)


text \<open>
  C6. The user \<open>u\<close> takes the stored sell order \<open>ord\<close>, which the validators accept.
  \<open>create\<close> is the call of \<open>createHoldInvoice\<close>, \<open>created\<close> its answer, and \<open>ord2\<close> the order
  with status \<open>WAITING_PAYMENT\<close>, the buyer, the hash, the secret and \<open>taken_at\<close> assigned.
  \<^item> If the create call rejects, the stored orders are as before (status, buyer, hash,
    secret, \<open>taken_at\<close> of the order as they were); the only outside calls are the create
    call and \<open>invalidDataMessage\<close>: no save, no subscription.
  \<^item> The stored orders change only if the create call and the save went through; then
    \<open>ord2\<close> is what is stored, with hash and secret set to the answer's, and the call that
    follows the save is \<open>subscribeInvoice\<close> for that hash.
\<close>

theorem takesell_escrow:
  assumes vu: "validateUser h (users w) c = Some u"
      and vt: "validateTakeSell h c u = Some (Some i, lnInvoice)"
      and ne: "i \<noteq> []"
      and st: "orders w i = Some ord"
      and ok: "validateTakeSellOrder h u lnInvoice (Some ord)"
      and cr: "create = CreateHoldInvoice (floor (amount ord + fee ord))
                          (''Venta por @'' @ botInfo_username c)"
      and cd: "created = new_invoice ev (trace w) (floor (amount ord + fee ord))
                          (''Venta por @'' @ botInfo_username c)"
      and o2: "ord2 = ord\<lparr>status := WAITING_PAYMENT, buyer_id := Some (uid u),
                          buyer_invoice := lnInvoice, hash := Some (inv_hash created),
                          secret := Some (inv_secret created),
                          taken_at := Some (date_now ev (trace w @ [create]))\<rparr>"
  shows "(fails ev (trace w) create \<longrightarrow>
            orders (takesell ev h c w) = orders w
          \<and> new_calls w (takesell ev h c w) = [create, InvalidDataMessage u])
       \<and> (orders (takesell ev h c w) \<noteq> orders w \<longrightarrow>
            \<not> fails ev (trace w) create \<and> \<not> fails ev (trace w @ [create]) (SaveOrder ord2))
       \<and> (\<not> fails ev (trace w) create \<and> \<not> fails ev (trace w @ [create]) (SaveOrder ord2) \<longrightarrow>
            orders (takesell ev h c w) = (orders w)(order_id ord \<mapsto> ord2)
          \<and> status ord2 = WAITING_PAYMENT
          \<and> buyer_id ord2 = Some (uid u)
          \<and> hash ord2 = Some (inv_hash created)
          \<and> secret ord2 = Some (inv_secret created)
          \<and> take 3 (new_calls w (takesell ev h c w))
              = [create, SaveOrder ord2, SubscribeInvoice (inv_hash created)])"
proof -
  have t: "takesell ev h c w = takesell_try ev h c u i lnInvoice w"
    using vu vt ne by (rule takesell_reaches_try)
  have a: "orders (takesell ev h c w) = orders w
      \<and> new_calls w (takesell ev h c w) = [create, InvalidDataMessage u]"
    if f: "fails ev (trace w) create"
    unfolding t cr using takesell_try_create_fails [OF st ok f [unfolded cr]] by simp
  have d: "orders (takesell ev h c w) = orders w"
    if "\<not> fails ev (trace w) create" "fails ev (trace w @ [create]) (SaveOrder ord2)"
    unfolding t using st ok cr cd o2 that by (rule takesell_try_save_fails)
  have s: "orders (takesell ev h c w) = (orders w)(order_id ord \<mapsto> ord2)
      \<and> take 3 (new_calls w (takesell ev h c w))
          = [create, SaveOrder ord2, SubscribeInvoice (inv_hash created)]"
    if "\<not> fails ev (trace w) create" "\<not> fails ev (trace w @ [create]) (SaveOrder ord2)"
    unfolding t using takesell_try_saved [OF st ok cr cd o2 that] by simp
  have fields: "status ord2 = WAITING_PAYMENT" "buyer_id ord2 = Some (uid u)"
    "hash ord2 = Some (inv_hash created)" "secret ord2 = Some (inv_secret created)"
    by (simp_all add: o2)
  from a d s fields show ?thesis by blast
qed


text \<open>
  Bob takes alice's pending order. With the create call rejected the stored order is
  unchanged: still \<open>PENDING\<close>, no buyer, no hash. With no call rejected it is stored in
  \<open>WAITING_PAYMENT\<close> with bob as the buyer and the hash and secret the node answered.
\<close>

theorem takesell_escrow_witness:
  "validateUser spec_helpers (users (world_of order1)) (message ''bob'' [''/takesell'', ''o1'', ''lnbc9''])
     = Some bob
   \<and> validateTakeSell spec_helpers (message ''bob'' [''/takesell'', ''o1'', ''lnbc9'']) bob
       = Some (Some ''o1'', Some ''lnbc9'')
   \<and> validateTakeSellOrder spec_helpers bob (Some ''lnbc9'') (Some order1)
   \<and> orders (takesell env_create_fails spec_helpers
         (message ''bob'' [''/takesell'', ''o1'', ''lnbc9'']) (world_of order1))
       = orders (world_of order1)
   \<and> orders (world_of order1) ''o1'' = Some order1
   \<and> status order1 = PENDING \<and> buyer_id order1 = None \<and> hash order1 = None
   \<and> map_option status
        (orders (takesell quiet_env spec_helpers
           (message ''bob'' [''/takesell'', ''o1'', ''lnbc9'']) (world_of order1)) ''o1'')
       = Some WAITING_PAYMENT
   \<and> map_option hash
        (orders (takesell quiet_env spec_helpers
           (message ''bob'' [''/takesell'', ''o1'', ''lnbc9'']) (world_of order1)) ''o1'')
       = Some (Some ''h9'')
   \<and> map_option secret
        (orders (takesell quiet_env spec_helpers
           (message ''bob'' [''/takesell'', ''o1'', ''lnbc9'']) (world_of order1)) ''o1'')
       = Some (Some ''s9'')"
proof -
  let ?c = "message ''bob'' [''/takesell'', ''o1'', ''lnbc9'']"
  let ?w = "world_of order1"
  let ?amt = "floor (amount order1 + fee order1)"
  let ?d = "''Venta por @'' @ botInfo_username ?c"
  let ?create = "CreateHoldInvoice ?amt ?d"
  have vu: "validateUser spec_helpers (users ?w) ?c = Some bob"
    and vt: "validateTakeSell spec_helpers ?c bob = Some (Some ''o1'', Some ''lnbc9'')"
    and ne: "''o1'' \<noteq> []"
    and st: "orders ?w ''o1'' = Some order1"
    and ok: "validateTakeSellOrder spec_helpers bob (Some ''lnbc9'') (Some order1)"
    and o1: "status order1 = PENDING" "buyer_id order1 = None" "hash order1 = None"
      "order_id order1 = ''o1''"
    by (simp_all add: sample_defs)
  have bad: "fails env_create_fails (trace ?w) ?create"
    by (simp add: env_create_fails_def env_rejecting_def)
  have good: "\<not> fails quiet_env tr e" for tr e
    by (simp add: sample_defs)
  have inv: "inv_hash (new_invoice quiet_env tr a d) = ''h9''"
    "inv_secret (new_invoice quiet_env tr a d) = ''s9''" for tr a d
    by (simp_all add: sample_defs)
  note F = takesell_escrow [OF vu vt ne st ok refl refl refl, of env_create_fails]
  note G = takesell_escrow [OF vu vt ne st ok refl refl refl, of quiet_env]
  have r1: "orders (takesell env_create_fails spec_helpers ?c ?w) = orders ?w"
    using F bad by blast
  let ?o2 = "order1\<lparr>status := WAITING_PAYMENT, buyer_id := Some (uid bob),
                    buyer_invoice := Some ''lnbc9'',
                    hash := Some (inv_hash (new_invoice quiet_env (trace ?w) ?amt ?d)),
                    secret := Some (inv_secret (new_invoice quiet_env (trace ?w) ?amt ?d)),
                    taken_at := Some (date_now quiet_env (trace ?w @ [?create]))\<rparr>"
  have r2: "orders (takesell quiet_env spec_helpers ?c ?w) = (orders ?w)(order_id order1 \<mapsto> ?o2)"
    using G good by blast
  have r3: "map_option status (orders (takesell quiet_env spec_helpers ?c ?w) ''o1'')
              = Some WAITING_PAYMENT"
    "map_option hash (orders (takesell quiet_env spec_helpers ?c ?w) ''o1'') = Some (Some ''h9'')"
    "map_option secret (orders (takesell quiet_env spec_helpers ?c ?w) ''o1'') = Some (Some ''s9'')"
    unfolding r2 by (simp_all add: o1(4) inv)
  from vu vt ok r1 st o1 r3 show ?thesis by blast
qed

end
